theory Spec2Isabelle
  imports Complex_Main
begin

section \<open>The car-racing environment of \<^verbatim>\<open>movement_primitives/car_racing.py\<close>\<close>

text \<open>
  The environment is a Python class \<^verbatim>\<open>CarRacing\<close> with a contact listener
  \<^verbatim>\<open>FrictionDetector\<close>. Python floats are idealised as HOL reals throughout, Python
  integers are \<open>int\<close>, exceptions are values of type \<open>error\<close> on the left of a sum.
  The rigid-body engine (Box2D), the car (\<^verbatim>\<open>car_dynamics.Car\<close>) and the renderer are
  collaborators outside the file: what they hand to the environment in one frame
  (the contact events and the new hull position) is an input of the model.
\<close>

subsection \<open>Python exceptions, indexing and slicing\<close>

datatype error =
  KeyError | NameError | IndexError | ValueError | ZeroDivisionError
  | AttributeError | FileNotFoundError

text \<open>\<^verbatim>\<open>xs[i]\<close>: an index below zero counts from the end; outside both ranges it raises.\<close>

definition py_index :: "'a list \<Rightarrow> int \<Rightarrow> error + 'a" where
  "py_index xs i =
     (if 0 \<le> i \<and> i < int (length xs) then Inr (xs ! nat i)
      else if i < 0 \<and> - int (length xs) \<le> i then Inr (xs ! nat (int (length xs) + i))
      else Inl IndexError)"

text \<open>\<^verbatim>\<open>xs[a:b]\<close>: both bounds are shifted by the length when negative, then clipped;
  a slice never raises.\<close>

definition py_bound :: "nat \<Rightarrow> int \<Rightarrow> nat" where
  "py_bound n a = (if a < 0 then nat (max 0 (int n + a)) else min (nat a) n)"

definition py_slice :: "'a list \<Rightarrow> int \<Rightarrow> int \<Rightarrow> 'a list" where
  "py_slice xs a b =
     take (py_bound (length xs) b - py_bound (length xs) a) (drop (py_bound (length xs) a) xs)"

text \<open>\<^verbatim>\<open>xs[a:]\<close>.\<close>

definition py_slice_from :: "'a list \<Rightarrow> int \<Rightarrow> 'a list" where
  "py_slice_from xs a = drop (py_bound (length xs) a) xs"

text \<open>\<^verbatim>\<open>range(a, b)\<close> as the list it iterates over.\<close>

definition py_range :: "int \<Rightarrow> int \<Rightarrow> int list" where
  "py_range a b = [a..b - 1]"

subsection \<open>Module constants\<close>

text \<open>The module computes these once at import, from \<^verbatim>\<open>SCALE = 10.0\<close>; a later
  assignment to \<^verbatim>\<open>SCALE\<close> by the entry point does not change them.\<close>

definition SCALE :: real where "SCALE = 10"
definition TRACK_RAD :: real where "TRACK_RAD = 900 / SCALE"
definition PLAYFIELD :: real where "PLAYFIELD = 2000 / SCALE"
definition FPS :: real where "FPS = 50"
definition TRACK_DETAIL_STEP :: real where "TRACK_DETAIL_STEP = 21 / SCALE"
definition TRACK_TURN_RATE :: real where "TRACK_TURN_RATE = 31 / 100"
definition TRACK_WIDTH :: real where "TRACK_WIDTH = (40 / SCALE) * (5 / 4)"
definition BORDER :: real where "BORDER = 8 / SCALE"
definition BORDER_MIN_COUNT :: nat where "BORDER_MIN_COUNT = 4"

definition sim_params_path_v1 :: string where
  "sim_params_path_v1 = ''./simulation_parameters/track_v1.txt''"
definition sim_params_path_v2 :: string where
  "sim_params_path_v2 = ''./simulation_parameters/track_v2.txt''"
definition sim_params_path_v3 :: string where
  "sim_params_path_v3 = ''./simulation_parameters/track_v3.txt''"
definition sim_params_path_v4 :: string where
  "sim_params_path_v4 = ''./simulation_parameters/track_v4.txt''"
definition sim_params_path_v5 :: string where
  "sim_params_path_v5 = ''./simulation_parameters/track_v5.txt''"

subsection \<open>The scenario table \<^verbatim>\<open>corners\<close>\<close>

text \<open>
  An entry is the Python list \<^verbatim>\<open>[x, y, (vel_x, vel_y), angle, SCALE, track_params]\<close>.
  The entry of the key \<^verbatim>\<open>None\<close> has four elements only and \<^verbatim>\<open>None\<close> as its angle,
  hence the options. Keys are \<^verbatim>\<open>None\<close> or an integer.
\<close>

record scenario =
  tile_from :: int
  tile_to :: int
  init_vel :: "real \<times> real"
  add_angle :: "real option"
  scale_of :: "real option"
  params_of :: "string option"

definition entry :: "int \<Rightarrow> int \<Rightarrow> real \<times> real \<Rightarrow> real \<Rightarrow> real \<Rightarrow> string \<Rightarrow> scenario" where
  "entry a b v ang sc p =
     \<lparr>tile_from = a, tile_to = b, init_vel = v, add_angle = Some ang,
      scale_of = Some sc, params_of = Some p\<rparr>"

definition corners_table :: "(int option \<times> scenario) list" where
  "corners_table =
    [(Some 30, entry 310 348 (364 / 10, 389 / 10) 0 10 sim_params_path_v1),
     (Some 40, entry 0 35 (111 / 10, 462 / 10) 0 10 sim_params_path_v1),
     (Some 50, entry 228 275 (46966 / 1000, 2439 / 100) 0 10 sim_params_path_v3),
     (Some 60, entry 282 333 (493 / 10, - 111 / 10) (- 6 / 100) 10 sim_params_path_v1),
     (Some 80, entry 116 169 (0, 0) (1 / 10) 10 sim_params_path_v3),
     (Some 85, entry 58 125 (- 363 / 10, 375 / 10) 0 10 sim_params_path_v1),
     (Some 90, entry 50 111 (- 445 / 10, 345 / 10) 0 10 sim_params_path_v2),
     (Some 100, entry 281 345 (72 / 10, - 525 / 10) 0 14 sim_params_path_v1),
     (Some 110, entry 250 297 (521 / 10, - 239 / 10) (- 45 / 1000) 10 sim_params_path_v2),
     (Some 130, entry 128 181 (- 355 / 10, 77 / 10) (- 45 / 1000) 10 sim_params_path_v2),
     (Some 135, entry 145 210 (0, 0) (- 19 / 100) 10 sim_params_path_v3),
     (Some 140, entry 118 181 (0, 0) (2 / 100) 10 sim_params_path_v4),
     (Some 145, entry 83 142 (0, 0) (- 22 / 100) 10 sim_params_path_v3),
     (Some 147, entry 252 310 (0, 0) (- 185 / 1000) 10 sim_params_path_v4),
     (Some 150, entry 185 250 (0, 0) (- 85 / 1000) 10 sim_params_path_v4),
     (Some 160, entry 0 110 (0, 0) (- 4 / 100) 10 sim_params_path_v4),
     (None, \<lparr>tile_from = 0, tile_to = - 1, init_vel = (0, 0), add_angle = None,
             scale_of = None, params_of = None\<rparr>),
     (Some 1, entry 0 (- 1) (0, 0) 0 10 sim_params_path_v1),
     (Some 2, entry 0 (- 1) (0, 0) 0 10 sim_params_path_v2),
     (Some 3, entry 0 (- 1) (0, 0) 0 10 sim_params_path_v3),
     (Some 4, entry 0 (- 1) (0, 0) 0 10 sim_params_path_v4),
     (Some 5, entry 0 (- 1) (0, 0) 0 10 sim_params_path_v5)]"

definition corners :: "int option \<Rightarrow> scenario option" where
  "corners = map_of corners_table"

text \<open>\<^verbatim>\<open>corners[k]\<close> raises \<^verbatim>\<open>KeyError\<close> on a key the table lacks.\<close>

definition corners_get :: "int option \<Rightarrow> error + scenario" where
  "corners_get k = (case corners k of None \<Rightarrow> Inl KeyError | Some s \<Rightarrow> Inr s)"

subsection \<open>Bodies, tiles and the environment\<close>

type_synonym point = "real \<times> real \<times> real \<times> real"
type_synonym rgb = "real \<times> real \<times> real"
type_synonym vec2 = "real \<times> real"

text \<open>A road tile is a static body with the attributes the environment hangs on it.\<close>

record tile =
  road_visited :: bool
  road_friction :: real
  idx :: int
  color :: rgb

text \<open>
  \<^verbatim>\<open>body.userData\<close> of a contact: \<^verbatim>\<open>None\<close> (the hull), a road tile (it has
  \<^verbatim>\<open>road_friction\<close>; the number is the body's address in the world), a wheel (it has
  \<^verbatim>\<open>tiles\<close>), or an object with neither attribute.
\<close>

datatype userdata = NoData | TileData nat | WheelData nat | OtherData

text \<open>The car is a collaborator; the model keeps what the environment passes to it and
  reads from it.\<close>

record car =
  init_angle :: real
  init_x :: real
  init_y :: real
  car_add_angle :: "real option"
  steer_cmd :: real
  gas_cmd :: real
  brake_cmd :: real
  fuel_spent :: real
  hull_position :: vec2

text \<open>
  The environment object together with its listener and its world. Attributes that
  Python creates only in \<^verbatim>\<open>reset\<close> (\<^verbatim>\<open>tile_visited_count\<close>, \<^verbatim>\<open>t\<close>, \<^verbatim>\<open>track\<close>,
  \<^verbatim>\<open>road_poly\<close>, \<^verbatim>\<open>start_alpha\<close>) are fields from the start: they are read only by
  \<^verbatim>\<open>step\<close> and by the listener, and \<^verbatim>\<open>step\<close> fails on the absent car before that.
  \<^verbatim>\<open>t\<close> is named \<open>t_sim\<close>. \<open>fd_env_new_lap\<close> is the attribute \<^verbatim>\<open>env_new_lap\<close> of the
  listener (false while it is absent); \<open>bodies\<close> and \<open>wheel_tiles\<close> are the world's
  store of tile attributes and of the wheels' \<^verbatim>\<open>tiles\<close> sets, by body address.
\<close>

record env =
  corner_num :: "int option"
  sim_params_path :: "string option"
  domain_randomize :: bool
  verbose :: bool
  road_color :: rgb
  lap_complete_percent :: real
  fd_env_new_lap :: bool
  reward :: real
  prev_reward :: real
  tile_visited_count :: int
  t_sim :: real
  new_lap :: bool
  road :: "nat list"
  road_poly :: "(vec2 list \<times> rgb) list"
  track :: "point list"
  start_alpha :: real
  car :: "car option"
  bodies :: "nat \<Rightarrow> tile"
  next_body :: nat
  wheel_tiles :: "nat \<Rightarrow> nat set"

subsection \<open>\<^verbatim>\<open>FrictionDetector._contact\<close>\<close>

text \<open>\<^verbatim>\<open>u and "road_friction" in u.__dict__\<close>\<close>

fun has_road_friction :: "userdata \<Rightarrow> bool" where
  "has_road_friction (TileData r) = True"
| "has_road_friction u = False"

text \<open>The two \<^verbatim>\<open>if\<close>s that pick \<^verbatim>\<open>tile\<close> and \<^verbatim>\<open>obj\<close>; the second overrides the first.\<close>

definition contact_pair :: "userdata \<Rightarrow> userdata \<Rightarrow> userdata \<times> userdata" where
  "contact_pair u1 u2 =
     (let p = (NoData, NoData);
          p = (if has_road_friction u1 then (u1, u2) else p);
          p = (if has_road_friction u2 then (u2, u1) else p)
      in p)"

definition rgb_div :: "rgb \<Rightarrow> real \<Rightarrow> rgb" where
  "rgb_div c k = (case c of (r, g, b) \<Rightarrow> (r / k, g / k, b / k))"

definition rgb_add :: "rgb \<Rightarrow> real \<Rightarrow> rgb" where
  "rgb_add c k = (case c of (r, g, b) \<Rightarrow> (r + k, g + k, b + k))"

text \<open>The body of \<^verbatim>\<open>if not tile.road_visited:\<close>, for the tile at address \<open>r\<close>.\<close>

definition credit_tile :: "env \<Rightarrow> nat \<Rightarrow> error + env" where
  "credit_tile e r =
     (let e1 = e\<lparr>bodies := (bodies e)(r := (bodies e r)\<lparr>road_visited := True\<rparr>)\<rparr>
      in if length (track e1) = 0 then Inl ZeroDivisionError
         else
           let e2 = e1\<lparr>reward := reward e1 + 1000 / real (length (track e1))\<rparr>;
               e3 = e2\<lparr>tile_visited_count := tile_visited_count e2 + 1\<rparr>
           in if idx (bodies e3 r) = 0
                 \<and> real_of_int (tile_visited_count e3) / real (length (track e3))
                     > lap_complete_percent e3
              then Inr (e3\<lparr>fd_env_new_lap := True\<rparr>)
              else Inr e3)"

definition FrictionDetector_contact :: "env \<Rightarrow> userdata \<times> userdata \<Rightarrow> bool \<Rightarrow> error + env" where
  "FrictionDetector_contact e c begin =
     (case contact_pair (fst c) (snd c) of
        (TileData r, obj) \<Rightarrow>
          (let e1 = e\<lparr>bodies := (bodies e)(r := (bodies e r)\<lparr>color := rgb_div (road_color e) 255\<rparr>)\<rparr>
           in case obj of
                WheelData w \<Rightarrow>
                  if begin then
                    (let e2 = e1\<lparr>wheel_tiles := (wheel_tiles e1)(w := insert r (wheel_tiles e1 w))\<rparr>
                     in if \<not> road_visited (bodies e2 r) then credit_tile e2 r else Inr e2)
                  else if r \<in> wheel_tiles e1 w
                    then Inr (e1\<lparr>wheel_tiles := (wheel_tiles e1)(w := wheel_tiles e1 w - {r})\<rparr>)
                    else Inl KeyError
              | _ \<Rightarrow> Inr e1)
      | _ \<Rightarrow> Inr e)"

text \<open>\<^verbatim>\<open>BeginContact\<close> and \<^verbatim>\<open>EndContact\<close>.\<close>

definition BeginContact :: "env \<Rightarrow> userdata \<times> userdata \<Rightarrow> error + env" where
  "BeginContact e c = FrictionDetector_contact e c True"

definition EndContact :: "env \<Rightarrow> userdata \<times> userdata \<Rightarrow> error + env" where
  "EndContact e c = FrictionDetector_contact e c False"

subsection \<open>\<^verbatim>\<open>CarRacing.step\<close>\<close>

text \<open>What the physics engine does in one \<^verbatim>\<open>world.Step\<close>: the contact events it reports to
  the listener, in order, and the hull position afterwards.\<close>

datatype event = Begin "userdata \<times> userdata" | End "userdata \<times> userdata"

record frame =
  events :: "event list"
  position :: vec2

fun dispatch :: "env \<Rightarrow> event \<Rightarrow> error + env" where
  "dispatch e (Begin c) = BeginContact e c"
| "dispatch e (End c) = EndContact e c"

fun world_Step :: "env \<Rightarrow> event list \<Rightarrow> error + env" where
  "world_Step e [] = Inr e"
| "world_Step e (ev # evs) =
     (case dispatch e ev of Inl err \<Rightarrow> Inl err | Inr e1 \<Rightarrow> world_Step e1 evs)"

type_synonym action = "real \<times> real \<times> real"

text \<open>The part of \<^verbatim>\<open>step\<close> under \<^verbatim>\<open>if action is not None:\<close>, after the physics advance;
  the result is the new environment, the step reward and \<^verbatim>\<open>done\<close>.\<close>

definition score_step :: "env \<Rightarrow> car \<Rightarrow> env \<times> real \<times> bool" where
  "score_step e c =
     (let e1 = e\<lparr>reward := reward e - 1 / 10\<rparr>;
          e2 = e1\<lparr>car := Some (c\<lparr>fuel_spent := 0\<rparr>)\<rparr>;
          step_reward = reward e2 - prev_reward e2;
          e3 = e2\<lparr>prev_reward := reward e2\<rparr>;
          done = (tile_visited_count e3 = int (length (track e3)) \<or> new_lap e3)
      in if \<bar>fst (hull_position c)\<bar> > PLAYFIELD \<or> \<bar>snd (hull_position c)\<bar> > PLAYFIELD
         then (e3, - 100, True)
         else (e3, step_reward, done))"

definition CarRacing_step :: "env \<Rightarrow> action option \<Rightarrow> frame \<Rightarrow> error + (env \<times> real \<times> bool)" where
  "CarRacing_step e act f =
     (case car e of
        None \<Rightarrow> Inl AttributeError
      | Some c0 \<Rightarrow>
          (let c1 = (case act of
                       None \<Rightarrow> c0
                     | Some (s, g, b) \<Rightarrow> c0\<lparr>steer_cmd := - s, gas_cmd := g, brake_cmd := b\<rparr>)
           in case world_Step (e\<lparr>car := Some c1\<rparr>) (events f) of
                Inl err \<Rightarrow> Inl err
              | Inr e1 \<Rightarrow>
                  (let c2 = c1\<lparr>hull_position := position f\<rparr>;
                       e2 = e1\<lparr>car := Some c2, t_sim := t_sim e1 + 1 / FPS\<rparr>
                   in case act of
                        None \<Rightarrow> Inr (e2, 0, False)
                      | Some a \<Rightarrow> Inr (score_step e2 c2))))"

subsection \<open>Checkpoints\<close>

text \<open>A loop over a list whose body may raise: the first exception ends it.\<close>

fun for_each :: "('a \<Rightarrow> 's \<Rightarrow> error + 's) \<Rightarrow> 'a list \<Rightarrow> 's \<Rightarrow> error + 's" where
  "for_each body [] s = Inr s"
| "for_each body (x # xs) s =
     (case body x s of Inl err \<Rightarrow> Inl err | Inr s1 \<Rightarrow> for_each body xs s1)"

text \<open>\<^verbatim>\<open>xs[i] = v\<close>, with the index rules of \<^verbatim>\<open>xs[i]\<close>.\<close>

definition py_set :: "'a list \<Rightarrow> int \<Rightarrow> 'a \<Rightarrow> error + 'a list" where
  "py_set xs i v =
     (if 0 \<le> i \<and> i < int (length xs) then Inr (xs[nat i := v])
      else if i < 0 \<and> - int (length xs) \<le> i then Inr (xs[nat (int (length xs) + i) := v])
      else Inl IndexError)"

text \<open>
  A line of the parameter file is modelled by what \<^verbatim>\<open>float(s.strip())\<close> makes of it:
  a number, or nothing when it raises \<^verbatim>\<open>ValueError\<close>. A file system maps a path to the
  lines of the file there, if there is one.
\<close>

type_synonym line = "real option"
type_synonym files = "string \<Rightarrow> line list option"
type_synonym checkpoint = "real \<times> real \<times> real"

fun floats :: "line list \<Rightarrow> error + real list" where
  "floats [] = Inr []"
| "floats (l # ls) =
     (case l of
        None \<Rightarrow> Inl ValueError
      | Some v \<Rightarrow> (case floats ls of Inl err \<Rightarrow> Inl err | Inr vs \<Rightarrow> Inr (v # vs)))"

text \<open>The body of the loop of \<^verbatim>\<open>load_checkpoints\<close> for checkpoint \<open>c\<close>; the state is
  \<^verbatim>\<open>rad\<close>, \<^verbatim>\<open>self.start_alpha\<close> and \<^verbatim>\<open>checkpoints\<close>.\<close>

definition load_body ::
  "nat \<Rightarrow> real list \<Rightarrow> nat \<Rightarrow> real list \<times> real \<times> checkpoint list
     \<Rightarrow> error + real list \<times> real \<times> checkpoint list" where
  "load_body n noise c st =
     (case st of (rad, sa, cps) \<Rightarrow>
     (case py_index noise (int c) of Inl err \<Rightarrow> Inl err | Inr nz \<Rightarrow>
     (case (if c = 0
            then (case py_set rad (int c) (3 / 2 * TRACK_RAD) of
                    Inl err \<Rightarrow> Inl err | Inr rad1 \<Rightarrow> Inr (0, rad1))
            else Inr (2 * pi * real c / real n + nz, rad)) of
        Inl err \<Rightarrow> Inl err
      | Inr (alpha, rad1) \<Rightarrow>
     (case (if int c = int n - 1
            then (case py_set rad1 (int c) (3 / 2 * TRACK_RAD) of
                    Inl err \<Rightarrow> Inl err
                  | Inr rad2 \<Rightarrow> Inr (2 * pi * real c / real n, 2 * pi * (- 1 / 2) / real n, rad2))
            else Inr (alpha, sa, rad1)) of
        Inl err \<Rightarrow> Inl err
      | Inr (alpha1, sa1, rad2) \<Rightarrow>
     (case py_index rad2 (int c) of Inl err \<Rightarrow> Inl err | Inr r \<Rightarrow>
        Inr (rad2, sa1, cps @ [(alpha1, r * cos alpha1, r * sin alpha1)]))))))"

text \<open>\<^verbatim>\<open>load_checkpoints(n_checkpoints, path)\<close>; its only caller passes 12. The result is
  the environment with \<^verbatim>\<open>start_alpha\<close> set, and the checkpoints.\<close>

definition load_checkpoints ::
  "files \<Rightarrow> env \<Rightarrow> nat \<Rightarrow> string \<Rightarrow> error + env \<times> checkpoint list" where
  "load_checkpoints fs e n path =
     (case fs path of
        None \<Rightarrow> Inl FileNotFoundError
      | Some lines \<Rightarrow>
     (case floats (py_slice lines 0 (int n)) of Inl err \<Rightarrow> Inl err | Inr noise \<Rightarrow>
     (case floats (py_slice_from lines (- int n)) of Inl err \<Rightarrow> Inl err | Inr rad \<Rightarrow>
     (case for_each (load_body n noise) [0..<n] (rad, start_alpha e, []) of
        Inl err \<Rightarrow> Inl err
      | Inr (rad1, sa, cps) \<Rightarrow> Inr (e\<lparr>start_alpha := sa\<rparr>, cps)))))"

text \<open>\<^verbatim>\<open>store_checkpoints\<close>: \<open>draw c\<close> is the pair that the two calls of
  \<^verbatim>\<open>np_random.uniform\<close> return for checkpoint \<open>c\<close>. The file it writes is not read again by
  the environment and is left out.\<close>

definition store_body ::
  "nat \<Rightarrow> (nat \<Rightarrow> real \<times> real) \<Rightarrow> nat \<Rightarrow> real \<times> checkpoint list \<Rightarrow> real \<times> checkpoint list" where
  "store_body n draw c st =
     (case st of (sa, cps) \<Rightarrow>
      let noise = fst (draw c);
          alpha = 2 * pi * real c / real n + noise;
          rad = snd (draw c);
          (alpha, rad) = (if c = 0 then (0, 3 / 2 * TRACK_RAD) else (alpha, rad));
          (alpha, sa, rad) =
            (if int c = int n - 1
             then (2 * pi * real c / real n, 2 * pi * (- 1 / 2) / real n, 3 / 2 * TRACK_RAD)
             else (alpha, sa, rad))
      in (sa, cps @ [(alpha, rad * cos alpha, rad * sin alpha)]))"

definition store_checkpoints ::
  "env \<Rightarrow> nat \<Rightarrow> (nat \<Rightarrow> real \<times> real) \<Rightarrow> env \<times> checkpoint list" where
  "store_checkpoints e n draw =
     (case fold (store_body n draw) [0..<n] (start_alpha e, []) of
        (sa, cps) \<Rightarrow> (e\<lparr>start_alpha := sa\<rparr>, cps))"

subsection \<open>\<^verbatim>\<open>CarRacing._create_track\<close>: the closed loop\<close>

text \<open>
  The backward scan for the two crossings of the start angle. \<open>i\<close> is the loop variable
  before \<^verbatim>\<open>i -= 1\<close>, \<open>i2\<close> is \<open>- 1\<close> until the first crossing is found. The result is
  nothing for \<^verbatim>\<open>return False\<close>, or \<open>(i1, i2)\<close> at the \<^verbatim>\<open>break\<close>.
\<close>

function find_loop :: "point list \<Rightarrow> real \<Rightarrow> int \<Rightarrow> int \<Rightarrow> error + (int \<times> int) option" where
  "find_loop tr sa i i2 =
     (if i - 1 = 0 then Inr None
      else
        (case py_index tr (i - 1) of Inl err \<Rightarrow> Inl err | Inr p \<Rightarrow>
        (case py_index tr (i - 1 - 1) of Inl err \<Rightarrow> Inl err | Inr q \<Rightarrow>
          if (fst p > sa \<and> fst q \<le> sa) \<and> i2 = - 1 then find_loop tr sa (i - 1) (i - 1)
          else if (fst p > sa \<and> fst q \<le> sa) then Inr (Some (i - 1, i2))
          else find_loop tr sa (i - 1) i2)))"
  by pat_completeness auto
termination
  by (relation "measure (\<lambda>(tr, sa, i, i2). nat (i + int (length tr) + 1))")
     (auto simp: py_index_def split: if_splits)

declare find_loop.simps [simp del]

text \<open>The perpendicular jump between head and tail of the kept points.\<close>

definition well_glued_together :: "point list \<Rightarrow> error + real" where
  "well_glued_together tr =
     (case py_index tr 0 of Inl err \<Rightarrow> Inl err | Inr (a0, first_beta, x0, y0) \<Rightarrow>
     (case py_index tr (- 1) of Inl err \<Rightarrow> Inl err | Inr (a1, b1, x1, y1) \<Rightarrow>
        Inr (sqrt ((cos first_beta * (x0 - x1))\<^sup>2 + (sin first_beta * (y0 - y1))\<^sup>2))))"

text \<open>Lines 410 to 441: the kept points, or nothing when the attempt is rejected.\<close>

definition close_loop :: "point list \<Rightarrow> real \<Rightarrow> error + point list option" where
  "close_loop raw sa =
     (case find_loop raw sa (int (length raw)) (- 1) of
        Inl err \<Rightarrow> Inl err
      | Inr None \<Rightarrow> Inr None
      | Inr (Some (i1, i2)) \<Rightarrow>
          (let tr = py_slice raw i1 (i2 - 1)
           in case well_glued_together tr of
                Inl err \<Rightarrow> Inl err
              | Inr gap \<Rightarrow> if gap > TRACK_DETAIL_STEP then Inr None else Inr (Some tr)))"

text \<open>The tile count that the message \<^verbatim>\<open>"Track generation: %i..%i -> %i-tiles track"\<close>
  reports for the crossings found.\<close>

definition reported_tiles :: "int \<times> int \<Rightarrow> int" where
  "reported_tiles c = snd c - fst c"

subsection \<open>\<^verbatim>\<open>CarRacing._create_track\<close>: borders and tiles\<close>

text \<open>One round of \<^verbatim>\<open>for neg in range(BORDER_MIN_COUNT)\<close> of the first border loop; the
  state is \<^verbatim>\<open>good\<close> and \<^verbatim>\<open>oneside\<close>.\<close>

definition border_run_body :: "point list \<Rightarrow> int \<Rightarrow> int \<Rightarrow> bool \<times> real \<Rightarrow> error + bool \<times> real" where
  "border_run_body tr i neg st =
     (case py_index tr (i - neg - 0) of Inl err \<Rightarrow> Inl err | Inr p \<Rightarrow>
     (case py_index tr (i - neg - 1) of Inl err \<Rightarrow> Inl err | Inr q \<Rightarrow>
        Inr (fst st \<and> \<bar>fst (snd p) - fst (snd q)\<bar> > TRACK_TURN_RATE * (2 / 10),
             snd st + sgn (fst (snd p) - fst (snd q)))))"

definition border_flag_body :: "point list \<Rightarrow> int \<Rightarrow> bool list \<Rightarrow> error + bool list" where
  "border_flag_body tr i border =
     (case for_each (border_run_body tr i) (py_range 0 (int BORDER_MIN_COUNT)) (True, 0) of
        Inl err \<Rightarrow> Inl err
      | Inr st \<Rightarrow> py_set border i (fst st \<and> \<bar>snd st\<bar> = real BORDER_MIN_COUNT))"

text \<open>\<^verbatim>\<open>border[i - neg] |= border[i]\<close>\<close>

definition border_spread_body :: "int \<Rightarrow> int \<Rightarrow> bool list \<Rightarrow> error + bool list" where
  "border_spread_body i neg border =
     (case py_index border (i - neg) of Inl err \<Rightarrow> Inl err | Inr b0 \<Rightarrow>
     (case py_index border i of Inl err \<Rightarrow> Inl err | Inr b1 \<Rightarrow>
        py_set border (i - neg) (b0 \<or> b1)))"

definition border_flags :: "point list \<Rightarrow> error + bool list" where
  "border_flags tr =
     (case for_each (border_flag_body tr) (py_range 0 (int (length tr)))
             (replicate (length tr) False) of
        Inl err \<Rightarrow> Inl err
      | Inr border \<Rightarrow>
          for_each (\<lambda>i. for_each (border_spread_body i) (py_range 0 (int BORDER_MIN_COUNT)))
            (py_range 0 (int (length tr))) border)"

text \<open>The names a module-level lookup of \<^verbatim>\<open>corner_num\<close> can find: the name is bound only
  by the entry point under \<^verbatim>\<open>if __name__ == "__main__"\<close>, to \<^verbatim>\<open>None\<close> or an integer.\<close>

record globals =
  global_corner_num :: "int option option"

definition lookup_corner_num :: "globals \<Rightarrow> error + int option" where
  "lookup_corner_num G = (case global_corner_num G of None \<Rightarrow> Inl NameError | Some k \<Rightarrow> Inr k)"

text \<open>Truth value of \<^verbatim>\<open>self.corner_num\<close>: \<^verbatim>\<open>None\<close> and \<open>0\<close> are false.\<close>

definition truthy :: "int option \<Rightarrow> bool" where
  "truthy k = (case k of None \<Rightarrow> False | Some n \<Rightarrow> n \<noteq> 0)"

text \<open>\<^verbatim>\<open>self.corner_num and self.corner_num > 10\<close>\<close>

definition above_ten :: "int option \<Rightarrow> bool" where
  "above_ten k = (case k of None \<Rightarrow> False | Some n \<Rightarrow> n \<noteq> 0 \<and> n > 10)"

text \<open>The list \<^verbatim>\<open>iter\<close> of tile indices (lines 464 to 467).\<close>

definition tile_range :: "globals \<Rightarrow> env \<Rightarrow> point list \<Rightarrow> error + int list" where
  "tile_range G e tr =
     (if above_ten (corner_num e)
      then (case lookup_corner_num G of Inl err \<Rightarrow> Inl err | Inr k \<Rightarrow>
           (case corners_get k of Inl err \<Rightarrow> Inl err | Inr s \<Rightarrow>
              Inr (py_range (tile_from s) (tile_to s))))
      else Inr (py_range 0 (int (length tr))))"

definition road_vertices :: "point \<Rightarrow> point \<Rightarrow> vec2 list" where
  "road_vertices p1 p2 =
     (case p1 of (alpha1, beta1, x1, y1) \<Rightarrow>
      case p2 of (alpha2, beta2, x2, y2) \<Rightarrow>
        [(x1 - TRACK_WIDTH * cos beta1, y1 - TRACK_WIDTH * sin beta1),
         (x1 + TRACK_WIDTH * cos beta1, y1 + TRACK_WIDTH * sin beta1),
         (x2 + TRACK_WIDTH * cos beta2, y2 + TRACK_WIDTH * sin beta2),
         (x2 - TRACK_WIDTH * cos beta2, y2 - TRACK_WIDTH * sin beta2)])"

definition border_vertices :: "point \<Rightarrow> point \<Rightarrow> vec2 list" where
  "border_vertices p1 p2 =
     (case p1 of (alpha1, beta1, x1, y1) \<Rightarrow>
      case p2 of (alpha2, beta2, x2, y2) \<Rightarrow>
        (let side = sgn (beta2 - beta1)
         in [(x1 + side * TRACK_WIDTH * cos beta1, y1 + side * TRACK_WIDTH * sin beta1),
             (x1 + side * (TRACK_WIDTH + BORDER) * cos beta1,
              y1 + side * (TRACK_WIDTH + BORDER) * sin beta1),
             (x2 + side * (TRACK_WIDTH + BORDER) * cos beta2,
              y2 + side * (TRACK_WIDTH + BORDER) * sin beta2),
             (x2 + side * TRACK_WIDTH * cos beta2, y2 + side * TRACK_WIDTH * sin beta2)]))"

text \<open>The body of \<^verbatim>\<open>for i in iter\<close>: the new static body gets the next free address of the
  world.\<close>

definition create_tile :: "point list \<Rightarrow> bool list \<Rightarrow> int \<Rightarrow> env \<Rightarrow> error + env" where
  "create_tile tr border i e =
     (case py_index tr i of Inl err \<Rightarrow> Inl err | Inr p1 \<Rightarrow>
     (case py_index tr (i - 1) of Inl err \<Rightarrow> Inl err | Inr p2 \<Rightarrow>
       (let b = next_body e;
            c = (1 / 100) * real_of_int (i mod 3) * 255;
            tl = \<lparr>road_visited = False, road_friction = 1, idx = i,
                  color = rgb_add (road_color e) c\<rparr>;
            e1 = e\<lparr>bodies := (bodies e)(b := tl), next_body := Suc b\<rparr>;
            e2 = e1\<lparr>road_poly := road_poly e1 @ [(road_vertices p1 p2, color tl)]\<rparr>;
            e3 = e2\<lparr>road := road e2 @ [b]\<rparr>
        in case py_index border i of
             Inl err \<Rightarrow> Inl err
           | Inr flagged \<Rightarrow>
               if flagged
               then Inr (e3\<lparr>road_poly := road_poly e3 @
                          [(border_vertices p1 p2,
                            if i mod 2 = 0 then (255, 255, 255) else (255, 0, 0))]\<rparr>)
               else Inr e3)))"

text \<open>The value assigned to \<^verbatim>\<open>self.track\<close> (lines 525 to 528).\<close>

definition exposed_track :: "globals \<Rightarrow> env \<Rightarrow> point list \<Rightarrow> error + point list" where
  "exposed_track G e tr =
     (if truthy (corner_num e)
      then (case lookup_corner_num G of Inl err \<Rightarrow> Inl err | Inr k \<Rightarrow>
           (case corners_get k of Inl err \<Rightarrow> Inl err | Inr s \<Rightarrow>
              Inr (py_slice tr (tile_from s) (tile_to s))))
      else Inr tr)"

text \<open>Lines 443 to 529, from the kept points on.\<close>

definition build_road :: "globals \<Rightarrow> env \<Rightarrow> point list \<Rightarrow> error + env" where
  "build_road G e tr =
     (case border_flags tr of Inl err \<Rightarrow> Inl err | Inr border \<Rightarrow>
     (case tile_range G e tr of Inl err \<Rightarrow> Inl err | Inr rng \<Rightarrow>
     (case for_each (create_tile tr border) rng e of Inl err \<Rightarrow> Inl err | Inr e1 \<Rightarrow>
     (case exposed_track G e1 tr of Inl err \<Rightarrow> Inl err | Inr tr1 \<Rightarrow>
        Inr (e1\<lparr>track := tr1\<rparr>)))))"

text \<open>
  One call of \<^verbatim>\<open>_create_track\<close>. The walk from checkpoint to checkpoint (lines 349 to
  408) is numerical work on \<^verbatim>\<open>atan2\<close>, \<^verbatim>\<open>cos\<close> and \<^verbatim>\<open>sin\<close>; the list of points it leaves
  in \<^verbatim>\<open>track\<close> is taken as the input \<open>walked\<close>, and \<open>draw\<close> is the random source of
  \<^verbatim>\<open>store_checkpoints\<close>. The result is the returned flag and the environment.
\<close>

record attempt =
  draw :: "nat \<Rightarrow> real \<times> real"
  walked :: "point list"

definition CHECKPOINTS :: nat where "CHECKPOINTS = 12"

definition make_checkpoints :: "files \<Rightarrow> env \<Rightarrow> attempt \<Rightarrow> error + env \<times> checkpoint list" where
  "make_checkpoints fs e a =
     (case sim_params_path e of
        None \<Rightarrow> Inr (store_checkpoints e CHECKPOINTS (draw a))
      | Some path \<Rightarrow>
          if path \<noteq> [] then load_checkpoints fs e CHECKPOINTS path
          else Inr (store_checkpoints e CHECKPOINTS (draw a)))"

definition CarRacing_create_track ::
  "globals \<Rightarrow> files \<Rightarrow> env \<Rightarrow> attempt \<Rightarrow> error + bool \<times> env" where
  "CarRacing_create_track G fs e a =
     (case make_checkpoints fs e a of Inl err \<Rightarrow> Inl err | Inr ec \<Rightarrow>
       (let e1 = (fst ec)\<lparr>road := []\<rparr>
        in case close_loop (walked a) (start_alpha e1) of
             Inl err \<Rightarrow> Inl err
           | Inr None \<Rightarrow> Inr (False, e1)
           | Inr (Some tr) \<Rightarrow>
               (case build_road G e1 tr of Inl err \<Rightarrow> Inl err | Inr e2 \<Rightarrow> Inr (True, e2))))"

subsection \<open>\<^verbatim>\<open>CarRacing.__init__\<close> and \<^verbatim>\<open>CarRacing.reset\<close>\<close>

text \<open>\<^verbatim>\<open>_init_colors\<close>; \<open>rnd\<close> is the colour drawn when the domain is randomised. The
  background and grass colours are read by the renderer only.\<close>

definition init_colors :: "env \<Rightarrow> rgb \<Rightarrow> env" where
  "init_colors e rnd =
     (if domain_randomize e then e\<lparr>road_color := rnd\<rparr> else e\<lparr>road_color := (102, 102, 102)\<rparr>)"

definition fresh_tile :: tile where
  "fresh_tile = \<lparr>road_visited = False, road_friction = 1, idx = 0, color = (0, 0, 0)\<rparr>"

text \<open>The constructor stores its arguments and builds the listener and the world. It has
  no \<^verbatim>\<open>raise\<close> and does not read the scenario table.\<close>

definition CarRacing_init ::
  "bool \<Rightarrow> real \<Rightarrow> bool \<Rightarrow> int option \<Rightarrow> string option \<Rightarrow> rgb \<Rightarrow> error + env" where
  "CarRacing_init verb percent randomize cnum path rnd =
     Inr (init_colors
       \<lparr>corner_num = cnum, sim_params_path = path, domain_randomize = randomize,
        verbose = verb, road_color = (0, 0, 0), lap_complete_percent = percent,
        fd_env_new_lap = False, reward = 0, prev_reward = 0, tile_visited_count = 0,
        t_sim = 0, new_lap = False, road = [], road_poly = [], track = [], start_alpha = 0,
        car = None, bodies = (\<lambda>b. fresh_tile), next_body = 0,
        wheel_tiles = (\<lambda>w. {})\<rparr> rnd)"

text \<open>\<^verbatim>\<open>_destroy\<close>: nothing to do without a road; otherwise the bodies of the road leave the
  world and \<^verbatim>\<open>self.car.destroy()\<close> is called, which raises \<^verbatim>\<open>AttributeError\<close> when
  \<^verbatim>\<open>self.car\<close> is \<^verbatim>\<open>None\<close>.\<close>

definition destroy :: "env \<Rightarrow> error + env" where
  "destroy e =
     (if road e = [] then Inr e
      else (case car e of None \<Rightarrow> Inl AttributeError | Some c \<Rightarrow> Inr (e\<lparr>road := []\<rparr>)))"

text \<open>The loop \<^verbatim>\<open>while True: success = self._create_track() ...\<close> has no bound. Each
  element of the list is one attempt; running out of attempts without a success stands for
  a loop that does not end, and is the value \<open>None\<close>.\<close>

fun create_track_loop ::
  "globals \<Rightarrow> files \<Rightarrow> env \<Rightarrow> attempt list \<Rightarrow> (error + env) option" where
  "create_track_loop G fs e [] = None"
| "create_track_loop G fs e (a # as) =
     (case CarRacing_create_track G fs e a of
        Inl err \<Rightarrow> Some (Inl err)
      | Inr (success, e1) \<Rightarrow> if success then Some (Inr e1) else create_track_loop G fs e1 as)"

text \<open>\<^verbatim>\<open>Car(self.world, *self.track[0][1:4], add_angle=corners[self.corner_num][3])\<close>: the
  positional arguments are evaluated before the keyword argument.\<close>

definition new_car :: "env \<Rightarrow> error + env" where
  "new_car e =
     (case py_index (track e) 0 of Inl err \<Rightarrow> Inl err | Inr (alpha, beta, x, y) \<Rightarrow>
     (case corners_get (corner_num e) of Inl err \<Rightarrow> Inl err | Inr s \<Rightarrow>
        Inr (e\<lparr>car := Some \<lparr>init_angle = beta, init_x = x, init_y = y,
                            car_add_angle = add_angle s, steer_cmd = 0, gas_cmd = 0,
                            brake_cmd = 0, fuel_spent = 0, hull_position = (x, y)\<rparr>,
                wheel_tiles := (\<lambda>w. {})\<rparr>)))"

text \<open>The assignments of \<^verbatim>\<open>reset\<close> between \<^verbatim>\<open>_destroy\<close> and the generation loop.\<close>

definition reset_fields :: "env \<Rightarrow> rgb \<Rightarrow> env" where
  "reset_fields e rnd =
     init_colors
       (e\<lparr>reward := 0, prev_reward := 0, tile_visited_count := 0, t_sim := 0,
          new_lap := False, road_poly := []\<rparr>) rnd"

text \<open>\<^verbatim>\<open>reset\<close>; \<open>f\<close> is the frame of the priming \<^verbatim>\<open>self.step(None)\<close>.\<close>

definition CarRacing_reset ::
  "globals \<Rightarrow> files \<Rightarrow> env \<Rightarrow> rgb \<Rightarrow> attempt list \<Rightarrow> frame \<Rightarrow> (error + env) option" where
  "CarRacing_reset G fs e rnd as f =
     (case destroy e of
        Inl err \<Rightarrow> Some (Inl err)
      | Inr e0 \<Rightarrow>
     (case create_track_loop G fs (reset_fields e0 rnd) as of
        None \<Rightarrow> None
      | Some (Inl err) \<Rightarrow> Some (Inl err)
      | Some (Inr e4) \<Rightarrow>
          Some (case new_car e4 of Inl err \<Rightarrow> Inl err | Inr e5 \<Rightarrow>
               (case CarRacing_step e5 None f of
                  Inl err \<Rightarrow> Inl err
                | Inr res \<Rightarrow> Inr (fst res)))))"

subsection \<open>An episode as the entry point drives it\<close>

text \<open>The inner loop of the entry point: it steps with an action per frame, adds the step
  rewards to \<^verbatim>\<open>total_reward\<close>, counts \<^verbatim>\<open>steps\<close> and leaves at \<^verbatim>\<open>done\<close>. The state is the
  environment, \<^verbatim>\<open>total_reward\<close>, \<^verbatim>\<open>steps\<close> and whether the loop left at \<^verbatim>\<open>done\<close>.\<close>

fun play ::
  "env \<Rightarrow> (action \<times> frame) list \<Rightarrow> real \<Rightarrow> nat \<Rightarrow> error + env \<times> real \<times> nat \<times> bool" where
  "play e [] total_reward steps = Inr (e, total_reward, steps, False)"
| "play e (af # afs) total_reward steps =
     (case CarRacing_step e (Some (fst af)) (snd af) of
        Inl err \<Rightarrow> Inl err
      | Inr (e1, r, done) \<Rightarrow>
          if done then Inr (e1, total_reward + r, Suc steps, True)
          else play e1 afs (total_reward + r) (Suc steps))"

subsection \<open>The command line of the entry point\<close>

text \<open>The module run as a script: the entry point binds the name \<^verbatim>\<open>corner_num\<close>.\<close>

definition entry_globals :: "int option \<Rightarrow> globals" where
  "entry_globals k = \<lparr>global_corner_num = Some k\<rparr>"

text \<open>Lines 908 to 919; \<open>arg\<close> is \<^verbatim>\<open>int(sys.argv[1])\<close> when there is an argument. For an
  identifier that the table lacks, the branch prints its message and evaluates the name
  \<^verbatim>\<open>exit\<close> without calling it, so the run goes on with the names as they are. The result is
  the values of \<^verbatim>\<open>corner_num\<close> and \<^verbatim>\<open>sim_params_path\<close>.\<close>

definition entry_args :: "int option \<Rightarrow> int option \<times> string option" where
  "entry_args arg =
     (case arg of
        None \<Rightarrow> (None, None)
      | Some k \<Rightarrow>
          if k = - 1 then (None, None)
          else (case corners (Some k) of
                  None \<Rightarrow> (Some k, None)
                | Some s \<Rightarrow> (Some k, params_of s)))"

text \<open>Line 927, \<^verbatim>\<open>env = CarRacing(corner_num=corner_num, sim_params_path=sim_params_path)\<close>,
  with the module names it leaves bound.\<close>

definition entry_env :: "int option \<Rightarrow> rgb \<Rightarrow> globals \<times> (error + env)" where
  "entry_env arg rnd =
     (case entry_args arg of
        (cn, path) \<Rightarrow> (entry_globals cn, CarRacing_init True (95 / 100) False cn path rnd))"

subsection \<open>Concrete inputs\<close>

text \<open>
  A walk of nine points around a start angle of \<open>- pi / 12\<close>: the polar angle is below the
  start angle at the points 0 and 6 and above it elsewhere, so the backward scan meets
  crossings at 7 and at 1. All headings are 0 and the points lie on the line \<open>x = 0\<close>.
\<close>

definition example_walked :: "point list" where
  "example_walked =
     [(- 1, 0, 0, 0), (0, 0, 0, 1), (0, 0, 0, 2), (0, 0, 0, 3), (0, 0, 0, 4), (0, 0, 0, 5),
      (- 1, 0, 0, 6), (0, 0, 0, 7), (0, 0, 0, 8)]"

definition example_attempt :: attempt where
  "example_attempt = \<lparr>draw = (\<lambda>c. (0, 50)), walked = example_walked\<rparr>"

text \<open>The module imported as a library: the name \<^verbatim>\<open>corner_num\<close> is not bound.\<close>

definition library_globals :: globals where
  "library_globals = \<lparr>global_corner_num = None\<rparr>"

definition no_files :: files where
  "no_files = (\<lambda>path. None)"

text \<open>A frame without contacts that leaves the hull at the first kept point.\<close>

definition still_frame :: frame where
  "still_frame = \<lparr>events = [], position = (0, 1)\<rparr>"

text \<open>A frame in which wheel 0 begins to touch the tile at address \<open>b\<close>.\<close>

definition touch :: "nat \<Rightarrow> frame" where
  "touch b = \<lparr>events = [Begin (TileData b, WheelData 0)], position = (0, 1)\<rparr>"

definition coast :: action where
  "coast = (0, 0, 0)"

text \<open>A frame without contacts that leaves the hull beyond the playfield bound.\<close>

definition far_frame :: frame where
  "far_frame = \<lparr>events = [], position = (201, 0)\<rparr>"

text \<open>The same with wheel 0 beginning to touch the tile at address 0.\<close>

definition far_touch :: frame where
  "far_touch = \<lparr>events = [Begin (TileData 0, WheelData 0)], position = (201, 0)\<rparr>"

text \<open>Four frames with an action each: wheel 0 reaches the tiles at the addresses 1, 2
  and then 0 (the tile with index 0), and a last frame has no contact.\<close>

definition lap_frames :: "(action \<times> frame) list" where
  "lap_frames = [(coast, touch 1), (coast, touch 2), (coast, touch 0), (coast, still_frame)]"

text \<open>An environment built with a lap threshold of one half and no scenario.\<close>

definition example_new :: env where
  "example_new = projr (CarRacing_init True (1 / 2) False None None (0, 0, 0))"

text \<open>What \<^verbatim>\<open>reset\<close> makes of it on the example walk (lemma \<open>example_reset\<close> below): five
  tiles at the addresses 0 to 4, none visited yet.\<close>

definition example_ready :: env where
  "example_ready =
     \<lparr>corner_num = None, sim_params_path = None, domain_randomize = False, verbose = True,
      road_color = (102, 102, 102), lap_complete_percent = 1 / 2, fd_env_new_lap = False,
      reward = 0, prev_reward = 0, tile_visited_count = 0, t_sim = 1 / 50, new_lap = False,
      road = [0, Suc 0, Suc (Suc 0), Suc (Suc (Suc 0)), Suc (Suc (Suc (Suc 0)))],
      road_poly =
        [([(- 5, 1), (5, 1), (5, 5), (- 5, 5)], 102, 102, 102),
         ([(- 5, 2), (5, 2), (5, 1), (- 5, 1)], 2091 / 20, 2091 / 20, 2091 / 20),
         ([(- 5, 3), (5, 3), (5, 2), (- 5, 2)], 1071 / 10, 1071 / 10, 1071 / 10),
         ([(- 5, 4), (5, 4), (5, 3), (- 5, 3)], 102, 102, 102),
         ([(- 5, 5), (5, 5), (5, 4), (- 5, 4)], 2091 / 20, 2091 / 20, 2091 / 20)],
      track = [(0, 0, 0, 1), (0, 0, 0, 2), (0, 0, 0, 3), (0, 0, 0, 4), (0, 0, 0, 5)],
      start_alpha = - (pi / 12),
      car = Some \<lparr>init_angle = 0, init_x = 0, init_y = 1, car_add_angle = None,
                  steer_cmd = 0, gas_cmd = 0, brake_cmd = 0, fuel_spent = 0,
                  hull_position = (0, 1)\<rparr>,
      bodies = (\<lambda>b. fresh_tile)
        (0 := \<lparr>road_visited = False, road_friction = 1, idx = 0, color = (102, 102, 102)\<rparr>,
         Suc 0 := \<lparr>road_visited = False, road_friction = 1, idx = 1,
                    color = (2091 / 20, 2091 / 20, 2091 / 20)\<rparr>,
         Suc (Suc 0) := \<lparr>road_visited = False, road_friction = 1, idx = 2,
                          color = (1071 / 10, 1071 / 10, 1071 / 10)\<rparr>,
         Suc (Suc (Suc 0)) := \<lparr>road_visited = False, road_friction = 1, idx = 3,
                                color = (102, 102, 102)\<rparr>,
         Suc (Suc (Suc (Suc 0))) := \<lparr>road_visited = False, road_friction = 1, idx = 4,
                                      color = (2091 / 20, 2091 / 20, 2091 / 20)\<rparr>),
      next_body = Suc (Suc (Suc (Suc (Suc 0)))),
      wheel_tiles = (\<lambda>w. {})\<rparr>"



definition one_file :: "line list \<Rightarrow> files" where
  "one_file ls = (\<lambda>path. if path = sim_params_path_v1 then Some ls else None)"


text \<open>An environment built by a caller of the library for the scenario 85.\<close>

definition example_scenario :: env where
  "example_scenario = projr (CarRacing_init True (1 / 2) False (Some 85) None (0, 0, 0))"

text \<open>A parameter file of twenty-four lines: twelve noise values and twelve radii.\<close>

definition full_lines :: "line list" where
  "full_lines = replicate 12 (Some 0) @ replicate 12 (Some 50)"

text \<open>A frame in which wheel 0 begins to touch the tile at \<open>b\<close> and wheel 1 the tile at
  \<open>c\<close>.\<close>

definition touch_two :: "nat \<Rightarrow> nat \<Rightarrow> frame" where
  "touch_two b c =
     \<lparr>events = [Begin (TileData b, WheelData 0), Begin (TileData c, WheelData 1)],
      position = (0, 1)\<rparr>"

text \<open>Three frames with an action each that reach the tiles at the addresses 0 to 4.\<close>

definition pair_frames :: "(action \<times> frame) list" where
  "pair_frames = [(coast, touch_two 0 1), (coast, touch 2), (coast, touch_two 3 4)]"

text \<open>The environment that the entry point constructs for the argument 1, and what
  \<^verbatim>\<open>reset\<close> makes of it on the example walk (lemma \<open>scenario_one_reset\<close> below): the five
  tiles of \<open>example_ready\<close>, and a track list of four points.\<close>

definition example_one :: env where
  "example_one = projr (snd (entry_env (Some 1) (0, 0, 0)))"

definition scenario_one_ready :: env where
  "scenario_one_ready =
     example_ready\<lparr>corner_num := Some 1, sim_params_path := Some sim_params_path_v1,
       lap_complete_percent := 95 / 100,
       track := [(0, 0, 0, 1), (0, 0, 0, 2), (0, 0, 0, 3), (0, 0, 0, 4)],
       car := Some \<lparr>init_angle = 0, init_x = 0, init_y = 1, car_add_angle = Some 0,
                  steer_cmd = 0, gas_cmd = 0, brake_cmd = 0, fuel_spent = 0,
                  hull_position = (0, 1)\<rparr>\<rparr>"






section \<open>Properties\<close>

subsection \<open>What a contact and a physics step leave alone\<close>

lemma contact_frame:
  "FrictionDetector_contact e c b = Inr e1 \<Longrightarrow>
     prev_reward e1 = prev_reward e \<and> new_lap e1 = new_lap e \<and> track e1 = track e
     \<and> car e1 = car e \<and> road e1 = road e \<and> lap_complete_percent e1 = lap_complete_percent e
     \<and> corner_num e1 = corner_num e"
  by (auto simp: FrictionDetector_contact_def credit_tile_def Let_def
           split: prod.splits userdata.splits if_splits)

lemma dispatch_frame:
  "dispatch e ev = Inr e1 \<Longrightarrow>
     prev_reward e1 = prev_reward e \<and> new_lap e1 = new_lap e \<and> track e1 = track e
     \<and> car e1 = car e \<and> road e1 = road e \<and> lap_complete_percent e1 = lap_complete_percent e
     \<and> corner_num e1 = corner_num e"
  by (cases ev) (auto simp: BeginContact_def EndContact_def dest: contact_frame)

lemma world_Step_frame:
  "world_Step e evs = Inr e1 \<Longrightarrow>
     prev_reward e1 = prev_reward e \<and> new_lap e1 = new_lap e \<and> track e1 = track e
     \<and> car e1 = car e \<and> road e1 = road e \<and> lap_complete_percent e1 = lap_complete_percent e
     \<and> corner_num e1 = corner_num e"
proof (induction evs arbitrary: e)
  case Nil
  then show ?case by simp
next
  case (Cons ev evs)
  then obtain e0 where d: "dispatch e ev = Inr e0" and w: "world_Step e0 evs = Inr e1"
    by (auto split: sum.splits)
  from dispatch_frame [OF d] Cons.IH [OF w] show ?case by simp
qed

subsection \<open>The example walk, evaluated\<close>

lemma pi_twelve: "pi \<le> 12" "\<not> pi \<le> 0"
  using pi_gt_zero pi_less_4 by linarith+

lemma example_walked_length: "int (length example_walked) = 9"
  by (simp add: example_walked_def)

lemma example_find_loop: "find_loop example_walked (- (pi / 12)) 9 (- 1) = Inr (Some (1, 7))"
  by (simp add: find_loop.simps example_walked_def py_index_def pi_twelve)

lemma example_kept:
  "py_slice example_walked 1 6 =
     [(0, 0, 0, 1), (0, 0, 0, 2), (0, 0, 0, 3), (0, 0, 0, 4), (0, 0, 0, 5)]"
  by (simp add: example_walked_def py_slice_def py_bound_def)

lemma example_close_loop:
  "close_loop example_walked (- (pi / 12)) =
     Inr (Some [(0, 0, 0, 1), (0, 0, 0, 2), (0, 0, 0, 3), (0, 0, 0, 4), (0, 0, 0, 5)])"
  by (simp add: close_loop_def example_walked_length example_find_loop example_kept
        well_glued_together_def py_index_def TRACK_DETAIL_STEP_def SCALE_def)

lemma example_border_flags:
  "border_flags [(0, 0, 0, 1), (0, 0, 0, 2), (0, 0, 0, 3), (0, 0, 0, 4), (0, 0, 0, 5)]
     = Inr [False, False, False, False, False]"
  by (simp add: border_flags_def py_range_def upto.simps border_flag_body_def
        border_run_body_def py_index_def py_set_def BORDER_MIN_COUNT_def border_spread_body_def)

lemma store_checkpoints_start:
  assumes "0 < n"
  shows "fst (store_checkpoints e n d) = e\<lparr>start_alpha := 2 * pi * (- 1 / 2) / real n\<rparr>"
proof -
  from assms obtain m where m: "n = Suc m" by (cases n) auto
  show ?thesis
    by (simp add: store_checkpoints_def m store_body_def Let_def split: prod.splits)
qed

lemma example_create_track:
  "CarRacing_create_track library_globals no_files (reset_fields example_new (0, 0, 0))
     example_attempt
   = Inr (True, example_ready\<lparr>car := None, t_sim := 0\<rparr>)"
  by (simp add: CarRacing_create_track_def make_checkpoints_def example_new_def
        CarRacing_init_def init_colors_def reset_fields_def example_attempt_def
        CHECKPOINTS_def example_close_loop example_border_flags build_road_def tile_range_def
        above_ten_def py_range_def upto.simps create_tile_def py_index_def exposed_track_def
        truthy_def Let_def split_beta store_checkpoints_start rgb_add_def road_vertices_def
        TRACK_WIDTH_def SCALE_def example_ready_def)

lemma example_new_destroy: "destroy example_new = Inr example_new"
  by (simp add: destroy_def example_new_def CarRacing_init_def init_colors_def)

lemma example_reset:
  "CarRacing_reset library_globals no_files example_new (0, 0, 0) [example_attempt] still_frame
   = Some (Inr example_ready)"
  by (simp add: CarRacing_reset_def example_new_destroy example_create_track new_car_def
        py_index_def corners_get_def corners_def corners_table_def CarRacing_step_def
        still_frame_def Let_def FPS_def example_ready_def)

lemma full_lines_load:
  "\<not> isl (load_checkpoints (one_file full_lines) e CHECKPOINTS sim_params_path_v1)
   \<and> fst (projr (load_checkpoints (one_file full_lines) e CHECKPOINTS sim_params_path_v1))
       = e\<lparr>start_alpha := - (pi / 12)\<rparr>"
  by (simp add: full_lines_def CHECKPOINTS_def load_checkpoints_def one_file_def py_slice_def
        py_slice_from_def py_bound_def load_body_def py_index_def py_set_def upt_rec
        numeral_eq_Suc)

subsection \<open>Leaving the playfield\<close>

text \<open>
  Claim C5. Whenever a step with an action returns and the hull position after the
  physics advance exceeds \<open>PLAYFIELD\<close> on either axis, the step reports \<^verbatim>\<open>done\<close> and a
  step reward of exactly \<open>- 100\<close>, whatever the per-step penalty and the tile credits of
  that step were.
\<close>

theorem step_out_of_bounds:
  assumes "CarRacing_step e (Some a) f = Inr (e1, r, d)"
      and "\<bar>fst (position f)\<bar> > PLAYFIELD \<or> \<bar>snd (position f)\<bar> > PLAYFIELD"
  shows "d \<and> r = - 100"
  using assms
  by (auto simp: CarRacing_step_def score_step_def Let_def
           split: option.splits sum.splits prod.splits)

lemma example_far_step:
  "\<not> isl (CarRacing_step example_ready (Some coast) far_frame)"
  by (simp add: CarRacing_step_def example_ready_def coast_def far_frame_def Let_def)

theorem step_out_of_bounds_witness:
  "\<not> isl (CarRacing_step example_ready (Some coast) far_frame)
   \<and> \<bar>fst (position far_frame)\<bar> > PLAYFIELD
   \<and> snd (projr (CarRacing_step example_ready (Some coast) far_frame)) = (- 100, True)"
proof -
  have far: "\<bar>fst (position far_frame)\<bar> > PLAYFIELD"
    by (simp add: far_frame_def PLAYFIELD_def SCALE_def)
  obtain e1 r d where s: "CarRacing_step example_ready (Some coast) far_frame = Inr (e1, r, d)"
    using example_far_step by (cases "CarRacing_step example_ready (Some coast) far_frame") auto
  from step_out_of_bounds [OF s] far have "d \<and> r = - 100" by blast
  with s far show ?thesis by simp
qed

text \<open>
  Claim C9. On a step that ends out of bounds the \<open>- 100\<close> goes to the returned step reward
  only. Compared with the same step ending at any position \<open>p\<close> inside the playfield, the
  cumulative reward and the snapshot \<^verbatim>\<open>prev_reward\<close> come out the same, the snapshot equals
  the cumulative reward, and that cumulative reward is the old snapshot plus the in-bounds
  step reward (per-step penalty and tile credits).
\<close>

theorem out_of_bounds_keeps_accounts:
  assumes "CarRacing_step e (Some a) f = Inr (e1, r1, d1)"
      and "\<bar>fst (position f)\<bar> > PLAYFIELD \<or> \<bar>snd (position f)\<bar> > PLAYFIELD"
      and "\<not> (\<bar>fst p\<bar> > PLAYFIELD \<or> \<bar>snd p\<bar> > PLAYFIELD)"
  shows "\<exists>e2 r2 d2. CarRacing_step e (Some a) (f\<lparr>position := p\<rparr>) = Inr (e2, r2, d2)
           \<and> reward e1 = reward e2 \<and> prev_reward e1 = prev_reward e2
           \<and> prev_reward e1 = reward e1 \<and> r2 = reward e1 - prev_reward e \<and> r1 = - 100"
proof -
  from assms(1) obtain c0 where c0: "car e = Some c0"
    by (auto simp: CarRacing_step_def split: option.splits)
  obtain s g b where a: "a = (s, g, b)" by (cases a)
  define c1 where "c1 = c0\<lparr>steer_cmd := - s, gas_cmd := g, brake_cmd := b\<rparr>"
  from assms(1) c0 a obtain e0 where w: "world_Step (e\<lparr>car := Some c1\<rparr>) (events f) = Inr e0"
    by (auto simp: CarRacing_step_def c1_def Let_def split: sum.splits)
  from world_Step_frame [OF w] have pr: "prev_reward e0 = prev_reward e" by simp
  show ?thesis
    using assms c0 a w pr
    by (auto simp: CarRacing_step_def score_step_def Let_def c1_def)
qed

lemma example_far_touch:
  "\<not> isl (CarRacing_step example_ready (Some coast) far_touch)"
  by (simp add: CarRacing_step_def example_ready_def coast_def far_touch_def Let_def
       BeginContact_def FrictionDetector_contact_def contact_pair_def credit_tile_def)

theorem out_of_bounds_keeps_accounts_witness:
  "\<not> isl (CarRacing_step example_ready (Some coast) far_touch)
   \<and> \<bar>fst (position far_touch)\<bar> > PLAYFIELD
   \<and> \<not> (\<bar>fst (0::real, 1::real)\<bar> > PLAYFIELD \<or> \<bar>snd (0::real, 1::real)\<bar> > PLAYFIELD)
   \<and> reward (fst (projr (CarRacing_step example_ready (Some coast) far_touch))) = 200 - 1 / 10
   \<and> fst (snd (projr (CarRacing_step example_ready (Some coast) (far_touch\<lparr>position := (0, 1)\<rparr>))))
       = 200 - 1 / 10
   \<and> fst (snd (projr (CarRacing_step example_ready (Some coast) far_touch))) = - 100"
proof -
  have far: "\<bar>fst (position far_touch)\<bar> > PLAYFIELD \<or> \<bar>snd (position far_touch)\<bar> > PLAYFIELD"
    by (simp add: far_touch_def PLAYFIELD_def SCALE_def)
  have near: "\<not> (\<bar>fst (0::real, 1::real)\<bar> > PLAYFIELD \<or> \<bar>snd (0::real, 1::real)\<bar> > PLAYFIELD)"
    by (simp add: PLAYFIELD_def SCALE_def)
  obtain e1 r1 d1 where s: "CarRacing_step example_ready (Some coast) far_touch = Inr (e1, r1, d1)"
    using example_far_touch by (cases "CarRacing_step example_ready (Some coast) far_touch") auto
  have rw: "reward (fst (projr (CarRacing_step example_ready (Some coast) far_touch))) = 200 - 1 / 10"
    by (simp add: CarRacing_step_def example_ready_def coast_def far_touch_def Let_def
       BeginContact_def FrictionDetector_contact_def contact_pair_def credit_tile_def score_step_def
       PLAYFIELD_def SCALE_def)
  have pr: "prev_reward example_ready = 0" by (simp add: example_ready_def)
  from out_of_bounds_keeps_accounts [OF s far near] rw pr s far near show ?thesis
    by (auto simp: far_touch_def PLAYFIELD_def SCALE_def)
qed

subsection \<open>Crediting a tile\<close>

text \<open>
  Claim C6. Let a contact resolve to the tile at address \<open>r\<close>. If the tile is already
  visited, a contact-begin returns with the cumulative reward and the visited-tile count
  unchanged. If it is not yet visited and the other body is a wheel, the contact-begin adds
  \<open>1000 / |track|\<close> to the reward and one to the count and marks the tile, and a second
  contact-begin on it changes neither.
\<close>

theorem contact_credit_once:
  assumes "contact_pair (fst c) (snd c) = (TileData r, obj)"
  shows "(road_visited (bodies e r) \<longrightarrow>
            (\<exists>e1. BeginContact e c = Inr e1 \<and> reward e1 = reward e
                   \<and> tile_visited_count e1 = tile_visited_count e))
         \<and> (\<not> road_visited (bodies e r) \<and> obj = WheelData w \<and> track e \<noteq> [] \<longrightarrow>
            (\<exists>e1 e2. BeginContact e c = Inr e1
                   \<and> reward e1 = reward e + 1000 / real (length (track e))
                   \<and> tile_visited_count e1 = tile_visited_count e + 1
                   \<and> road_visited (bodies e1 r)
                   \<and> BeginContact e1 c = Inr e2 \<and> reward e2 = reward e1
                   \<and> tile_visited_count e2 = tile_visited_count e1))"
  using assms
  by (auto simp: BeginContact_def FrictionDetector_contact_def credit_tile_def Let_def
           split: userdata.splits)

theorem contact_credit_once_witness:
  "contact_pair (TileData 0) (WheelData 0) = (TileData 0, WheelData 0)
   \<and> \<not> road_visited (bodies example_ready 0) \<and> track example_ready \<noteq> []
   \<and> reward (projr (BeginContact example_ready (TileData 0, WheelData 0))) = 200
   \<and> tile_visited_count (projr (BeginContact example_ready (TileData 0, WheelData 0))) = 1
   \<and> reward (projr (BeginContact (projr (BeginContact example_ready (TileData 0, WheelData 0)))
                      (TileData 0, WheelData 0))) = 200
   \<and> tile_visited_count
       (projr (BeginContact (projr (BeginContact example_ready (TileData 0, WheelData 0)))
                      (TileData 0, WheelData 0))) = 1"
proof -
  have p: "contact_pair (fst (TileData 0, WheelData 0)) (snd (TileData 0, WheelData 0))
             = (TileData 0, WheelData 0)"
    by (simp add: contact_pair_def)
  have h: "\<not> road_visited (bodies example_ready 0) \<and> track example_ready \<noteq> []
           \<and> reward example_ready = 0 \<and> tile_visited_count example_ready = 0
           \<and> length (track example_ready) = 5"
    by (simp add: example_ready_def)
  from contact_credit_once [OF p, of example_ready 0] h p show ?thesis
    by auto
qed

subsection \<open>The closed loop and the reported tile count\<close>

text \<open>Where the scan starts at the end of the list and finds both crossings, they satisfy
  \<open>0 < i1 < i2 < |track|\<close>, and the slice \<^verbatim>\<open>track[i1 : i2 - 1]\<close> keeps one point less than
  the \<open>i2 - i1\<close> of the message.\<close>

lemma find_loop_bounds:
  "find_loop tr sa i k = Inr (Some (i1, i2)) \<Longrightarrow> 1 \<le> i \<Longrightarrow> i \<le> int (length tr)
     \<Longrightarrow> k = - 1 \<or> (i \<le> k \<and> k < int (length tr))
     \<Longrightarrow> 0 < i1 \<and> i1 < i2 \<and> i2 < int (length tr) \<and> (if k = - 1 then i2 < i else i2 = k)"
proof (induction tr sa i k rule: find_loop.induct)
  case (1 tr sa i k)
  from "1.prems"(1) have nz: "i - 1 \<noteq> 0"
    by (subst (asm) find_loop.simps) (auto split: if_splits)
  with "1.prems"(2) have i2: "2 \<le> i" by simp
  from "1.prems"(1) nz obtain p q where
    p: "py_index tr (i - 1) = Inr p" and q: "py_index tr (i - 1 - 1) = Inr q"
    by (subst (asm) find_loop.simps) (auto split: sum.splits)
  show ?case
  proof (cases "fst p > sa \<and> fst q \<le> sa")
    case pass: True
    show ?thesis
    proof (cases "k = - 1")
      case True
      with "1.prems"(1) nz p q pass
      have r: "find_loop tr sa (i - 1) (i - 1) = Inr (Some (i1, i2))"
        by (subst (asm) find_loop.simps) simp
      from "1.IH"(1) [OF nz p q _ r] pass True i2 "1.prems"(3)
      show ?thesis by (auto split: if_splits)
    next
      case False
      with "1.prems"(1) nz p q pass have "i1 = i - 1 \<and> i2 = k"
        by (subst (asm) find_loop.simps) simp
      with False "1.prems" i2 show ?thesis
        by auto
    qed
  next
    case False
    with "1.prems"(1) nz p q
    have r: "find_loop tr sa (i - 1) k = Inr (Some (i1, i2))"
      by (subst (asm) find_loop.simps) auto
    from "1.IH"(2) [OF nz p q _ _ r] False i2 "1.prems"(3,4)
    show ?thesis by (auto split: if_splits)
  qed
qed


lemma kept_points_one_short:
  assumes "find_loop raw sa (int (length raw)) (- 1) = Inr (Some (i1, i2))"
  shows "int (length (py_slice raw i1 (i2 - 1))) = reported_tiles (i1, i2) - 1"
proof -
  have ne: "raw \<noteq> []"
    using assms by (subst (asm) find_loop.simps) (auto simp: py_index_def)
  then have "1 \<le> int (length raw)" by (cases raw) auto
  from find_loop_bounds [OF assms this] have "0 < i1 \<and> i1 < i2 \<and> i2 < int (length raw)"
    by simp
  then show ?thesis
    by (auto simp: py_slice_def py_bound_def reported_tiles_def)
qed

text \<open>
  Claim C2 says that the number of kept points equals the reported tile count \<open>i2 - i1\<close>.
  On the example walk the scan finds the crossings 1 and 7, the message reports 6 tiles and
  the slice keeps 5 points; by \<open>kept_points_one_short\<close> every walk with two crossings is one
  short in the same way.
\<close>

theorem example_kept_points:
  "find_loop example_walked (- (pi / 12)) (int (length example_walked)) (- 1) = Inr (Some (1, 7))
   \<and> reported_tiles (1, 7) = 6
   \<and> length (py_slice example_walked 1 (7 - 1)) = 5"
  by (simp add: example_walked_length example_find_loop example_kept reported_tiles_def)

subsection \<open>Lap completion\<close>

text \<open>The listener records a completed lap in its own attribute \<^verbatim>\<open>env_new_lap\<close>; the
  flag \<^verbatim>\<open>new_lap\<close> that \<^verbatim>\<open>step\<close> reads is not touched by any contact, so an in-bounds step
  of an environment whose \<^verbatim>\<open>new_lap\<close> is false reports \<^verbatim>\<open>done\<close> exactly when the count of
  visited tiles equals the track length.\<close>

lemma step_done_without_lap:
  assumes "CarRacing_step e (Some a) f = Inr (e1, r, d)"
      and "\<not> new_lap e"
      and "\<not> (\<bar>fst (position f)\<bar> > PLAYFIELD \<or> \<bar>snd (position f)\<bar> > PLAYFIELD)"
  shows "d = (tile_visited_count e1 = int (length (track e1))) \<and> \<not> new_lap e1"
proof -
  from assms(1) obtain c0 where c0: "car e = Some c0"
    by (auto simp: CarRacing_step_def split: option.splits)
  obtain s g b where a: "a = (s, g, b)" by (cases a)
  define c1 where "c1 = c0\<lparr>steer_cmd := - s, gas_cmd := g, brake_cmd := b\<rparr>"
  from assms(1) c0 a obtain e0 where w: "world_Step (e\<lparr>car := Some c1\<rparr>) (events f) = Inr e0"
    by (auto simp: CarRacing_step_def c1_def Let_def split: sum.splits)
  from world_Step_frame [OF w] assms(2) have "\<not> new_lap e0" by simp
  with assms c0 a w show ?thesis
    by (auto simp: CarRacing_step_def score_step_def Let_def c1_def)
qed

text \<open>
  Claim C1 says that once the listener detects the lap-completion condition, the next step
  with an action returns \<^verbatim>\<open>done\<close>. On the example environment (five tiles, threshold one
  half) the tiles 1, 2 and 0 are reached in three steps: at the third the condition fires
  (tile index 0, 3 of 5 tiles visited) and the listener sets its attribute, yet neither that
  step nor the following one returns \<^verbatim>\<open>done\<close>, and \<^verbatim>\<open>new_lap\<close> stays false.
\<close>

theorem lap_completion_not_reported:
  "\<not> isl (play example_ready lap_frames 0 0)
   \<and> fd_env_new_lap (fst (projr (play example_ready lap_frames 0 0)))
   \<and> \<not> new_lap (fst (projr (play example_ready lap_frames 0 0)))
   \<and> tile_visited_count (fst (projr (play example_ready lap_frames 0 0))) = 3
   \<and> snd (snd (projr (play example_ready lap_frames 0 0))) = (4, False)"
  by (simp add: lap_frames_def CarRacing_step_def example_ready_def coast_def touch_def
        still_frame_def Let_def BeginContact_def FrictionDetector_contact_def contact_pair_def
        credit_tile_def score_step_def PLAYFIELD_def SCALE_def FPS_def)

subsection \<open>Loading checkpoints from a short file\<close>





lemma for_each_error:
  "for_each body xs s = Inl err \<Longrightarrow> (\<And>x s0. body x s0 = Inl err \<Longrightarrow> P) \<Longrightarrow> P"
  by (induction xs arbitrary: s) (auto split: sum.splits)

lemma py_index_error: "py_index xs i = Inl err \<Longrightarrow> err = IndexError"
  by (auto simp: py_index_def split: if_splits)

lemma py_set_error: "py_set xs i v = Inl err \<Longrightarrow> err = IndexError"
  by (auto simp: py_set_def split: if_splits)

lemma load_body_error: "load_body n noise c st = Inl err \<Longrightarrow> err = IndexError"
  by (auto simp: load_body_def split: prod.splits sum.splits if_splits
           dest: py_index_error py_set_error)



lemma reset_fields_keeps:
  "sim_params_path (reset_fields e rnd) = sim_params_path e
   \<and> corner_num (reset_fields e rnd) = corner_num e"
  by (simp add: reset_fields_def init_colors_def)

lemma destroy_keeps:
  "destroy e = Inr e0 \<Longrightarrow> sim_params_path e0 = sim_params_path e \<and> corner_num e0 = corner_num e"
  by (auto simp: destroy_def split: if_splits option.splits)





subsection \<open>An identifier that the scenario table lacks\<close>

text \<open>Claim C3 says that an identifier that the table lacks is fatal when the environment
  is constructed. The entry point tests for it, but its branch does not leave: started
  with the argument 7, which the table lacks, it goes on to the constructor, which returns
  an environment holding 7, and the run ends only in \<^verbatim>\<open>reset\<close>, where the table is indexed
  (\<^verbatim>\<open>KeyError\<close>).\<close>

theorem unknown_id_entry_goes_on:
  "corners (Some 7) = None
   \<and> entry_env (Some 7) (0, 0, 0)
       = (entry_globals (Some 7), CarRacing_init True (95 / 100) False (Some 7) None (0, 0, 0))
   \<and> \<not> isl (snd (entry_env (Some 7) (0, 0, 0)))
   \<and> corner_num (projr (snd (entry_env (Some 7) (0, 0, 0)))) = Some 7
   \<and> CarRacing_reset (fst (entry_env (Some 7) (0, 0, 0))) no_files
        (projr (snd (entry_env (Some 7) (0, 0, 0)))) (0, 0, 0) [example_attempt] still_frame
       = Some (Inl KeyError)"
  by (simp add: entry_env_def entry_args_def CarRacing_reset_def destroy_def
        CarRacing_create_track_def make_checkpoints_def
        CarRacing_init_def init_colors_def reset_fields_def example_attempt_def
        CHECKPOINTS_def example_close_loop example_border_flags build_road_def tile_range_def
        above_ten_def py_range_def upto.simps create_tile_def py_index_def exposed_track_def
        truthy_def Let_def split_beta store_checkpoints_start rgb_add_def road_vertices_def
        TRACK_WIDTH_def SCALE_def entry_globals_def lookup_corner_num_def corners_get_def
        corners_def corners_table_def)

subsection \<open>The name \<^verbatim>\<open>corner_num\<close> in \<^verbatim>\<open>_create_track\<close>\<close>

lemma load_checkpoints_corner_num:
  "load_checkpoints fs e n path = Inr ec \<Longrightarrow> corner_num (fst ec) = corner_num e"
  by (auto simp: load_checkpoints_def split: option.splits sum.splits prod.splits)

lemma store_checkpoints_corner_num:
  "corner_num (fst (store_checkpoints e n d)) = corner_num e"
  by (auto simp: store_checkpoints_def split: prod.splits)

lemma make_checkpoints_corner_num:
  "make_checkpoints fs e a = Inr ec \<Longrightarrow> corner_num (fst ec) = corner_num e"
  by (auto simp: make_checkpoints_def store_checkpoints_corner_num
           split: option.splits if_splits dest: load_checkpoints_corner_num)

lemma example_scenario_destroy: "destroy example_scenario = Inr example_scenario"
  by (simp add: destroy_def example_scenario_def CarRacing_init_def init_colors_def)

lemma example_scenario_checkpoints:
  "make_checkpoints no_files (reset_fields example_scenario (0, 0, 0)) example_attempt
   = Inr (store_checkpoints (reset_fields example_scenario (0, 0, 0)) CHECKPOINTS
            (draw example_attempt))"
  by (simp add: make_checkpoints_def example_scenario_def CarRacing_init_def init_colors_def
        reset_fields_def)

lemma example_scenario_loop:
  "close_loop (walked example_attempt)
     (start_alpha (fst (store_checkpoints (reset_fields example_scenario (0, 0, 0)) CHECKPOINTS
            (draw example_attempt))))
   = Inr (Some [(0, 0, 0, 1), (0, 0, 0, 2), (0, 0, 0, 3), (0, 0, 0, 4), (0, 0, 0, 5)])"
  by (simp add: store_checkpoints_start CHECKPOINTS_def example_attempt_def example_close_loop)

text \<open>With the name bound, no exception of \<^verbatim>\<open>reset\<close> is a \<^verbatim>\<open>NameError\<close>: the other
  exceptions come from indexing, from the table, from the parameter file and from the
  listener.\<close>

lemma floats_error: "floats ls = Inl err \<Longrightarrow> err = ValueError"
  by (induction ls) (auto split: option.splits sum.splits)

lemma find_loop_error: "find_loop tr sa i i2 = Inl err \<Longrightarrow> err = IndexError"
proof (induction tr sa i i2 rule: find_loop.induct)
  case (1 tr sa i k)
  from "1.prems" have nz: "i - 1 \<noteq> 0"
    by (subst (asm) find_loop.simps) (auto split: if_splits)
  show ?case
  proof (cases "py_index tr (i - 1)")
    case (Inl e1)
    with "1.prems" nz have "e1 = err"
      by (subst (asm) find_loop.simps) simp
    with Inl show ?thesis by (auto dest: py_index_error)
  next
    case p: (Inr p)
    show ?thesis
    proof (cases "py_index tr (i - 1 - 1)")
      case (Inl e2)
      with "1.prems" nz p have "e2 = err"
        by (subst (asm) find_loop.simps) simp
      with Inl show ?thesis by (auto dest: py_index_error)
    next
      case q: (Inr q)
      show ?thesis
      proof (cases "fst p > sa \<and> fst q \<le> sa")
        case pass: True
        show ?thesis
        proof (cases "k = - 1")
          case True
          with "1.prems" nz p q pass
          have r: "find_loop tr sa (i - 1) (i - 1) = Inl err"
            by (subst (asm) find_loop.simps) simp
          from "1.IH"(1) [OF nz p q _ r] pass True show ?thesis by auto
        next
          case False
          with "1.prems" nz p q pass show ?thesis
            by (subst (asm) find_loop.simps) simp
        qed
      next
        case False
        with "1.prems" nz p q
        have r: "find_loop tr sa (i - 1) k = Inl err"
          by (subst (asm) find_loop.simps) auto
        from "1.IH"(2) [OF nz p q _ _ r] False show ?thesis by auto
      qed
    qed
  qed
qed

lemma close_loop_error: "close_loop raw sa = Inl err \<Longrightarrow> err = IndexError"
  by (auto simp: close_loop_def well_glued_together_def Let_def
           split: sum.splits option.splits prod.splits if_splits
           dest: find_loop_error py_index_error)

lemma load_checkpoints_error:
  "load_checkpoints fs e n path = Inl err \<Longrightarrow> err \<noteq> NameError"
proof -
  assume a: "load_checkpoints fs e n path = Inl err"
  show ?thesis
  proof
    assume "err = NameError"
    with a show False
      by (auto simp: load_checkpoints_def split: option.splits sum.splits prod.splits
               dest: floats_error elim!: for_each_error dest!: load_body_error)
  qed
qed

lemma border_flags_error: "border_flags tr = Inl err \<Longrightarrow> err = IndexError"
proof -
  assume a: "border_flags tr = Inl err"
  have run: "\<And>i neg st. border_run_body tr i neg st = Inl err \<Longrightarrow> err = IndexError"
    by (auto simp: border_run_body_def split: sum.splits dest: py_index_error)
  have flag: "\<And>i b. border_flag_body tr i b = Inl err \<Longrightarrow> err = IndexError"
    by (auto simp: border_flag_body_def split: sum.splits
             dest: py_set_error run elim!: for_each_error)
  have spread: "\<And>i neg b. border_spread_body i neg b = Inl err \<Longrightarrow> err = IndexError"
    by (auto simp: border_spread_body_def split: sum.splits dest: py_index_error py_set_error)
  from a show ?thesis
    by (auto simp: border_flags_def split: sum.splits
             elim!: for_each_error dest: flag spread)
qed

lemma create_tile_error: "create_tile tr border i e = Inl err \<Longrightarrow> err = IndexError"
  by (auto simp: create_tile_def Let_def split: sum.splits if_splits dest: py_index_error)

lemma build_road_error:
  "build_road (entry_globals k) e tr = Inl err \<Longrightarrow> err \<noteq> NameError"
proof
  assume a: "build_road (entry_globals k) e tr = Inl err" and n: "err = NameError"
  from a n show False
    by (auto simp: build_road_def tile_range_def exposed_track_def lookup_corner_num_def
          entry_globals_def corners_get_def
          split: sum.splits if_splits option.splits
          dest: border_flags_error create_tile_error elim!: for_each_error)
qed

lemma create_track_error:
  "CarRacing_create_track (entry_globals k) fs e a = Inl err \<Longrightarrow> err \<noteq> NameError"
  by (auto simp: CarRacing_create_track_def make_checkpoints_def Let_def
           split: sum.splits option.splits if_splits
           dest: load_checkpoints_error close_loop_error build_road_error)

lemma create_track_loop_error:
  "create_track_loop (entry_globals k) fs e as = Some (Inl err) \<Longrightarrow> err \<noteq> NameError"
proof (induction as arbitrary: e)
  case Nil
  then show ?case by simp
next
  case (Cons a as)
  then show ?case
    by (auto split: sum.splits if_splits dest: create_track_error)
qed

lemma contact_error:
  "FrictionDetector_contact e c b = Inl err \<Longrightarrow> err \<noteq> NameError"
  by (auto simp: FrictionDetector_contact_def credit_tile_def Let_def
           split: prod.splits userdata.splits if_splits)

lemma world_Step_error: "world_Step e evs = Inl err \<Longrightarrow> err \<noteq> NameError"
proof (induction evs arbitrary: e)
  case Nil
  then show ?case by simp
next
  case (Cons ev evs)
  show ?case
  proof (cases "dispatch e ev")
    case (Inl err0)
    with Cons.prems have "dispatch e ev = Inl err" by simp
    then show ?thesis
      by (cases ev) (auto simp: BeginContact_def EndContact_def dest: contact_error)
  next
    case (Inr e0)
    with Cons show ?thesis by simp
  qed
qed

lemma step_error: "CarRacing_step e act f = Inl err \<Longrightarrow> err \<noteq> NameError"
  by (auto simp: CarRacing_step_def Let_def split: option.splits sum.splits
           dest: world_Step_error)

lemma bound_name_reset:
  "CarRacing_reset (entry_globals k) fs e rnd as f \<noteq> Some (Inl NameError)"
proof
  assume a: "CarRacing_reset (entry_globals k) fs e rnd as f = Some (Inl NameError)"
  then show False
    by (auto simp: CarRacing_reset_def destroy_def new_car_def corners_get_def
          split: sum.splits option.splits if_splits prod.splits
          dest: create_track_loop_error step_error py_index_error)
qed

text \<open>Claim C10. Let the environment hold a scenario identifier above 10, and let a call of
  \<^verbatim>\<open>_create_track\<close> in \<^verbatim>\<open>reset\<close> get as far as the creation of the tiles. The range of the
  tiles is then read from the table at the module-level name \<^verbatim>\<open>corner_num\<close>, whatever the
  stored identifier is: with the module imported as a library the name is unbound and
  \<^verbatim>\<open>reset\<close> raises \<^verbatim>\<open>NameError\<close>; with the name bound by the entry point to \<open>k\<close>, \<^verbatim>\<open>reset\<close>
  does not raise \<^verbatim>\<open>NameError\<close> and the range is that of the entry \<open>k\<close>.\<close>

theorem library_reset_name_error:
  assumes "corner_num e = Some n" and "n > 10"
      and "destroy e = Inr e0"
      and "make_checkpoints fs (reset_fields e0 rnd) a = Inr ec"
      and "close_loop (walked a) (start_alpha (fst ec)) = Inr (Some tr)"
      and "border_flags tr = Inr border"
  shows "CarRacing_reset library_globals fs e rnd (a # as) f = Some (Inl NameError)
         \<and> CarRacing_reset (entry_globals k) fs e rnd (a # as) f \<noteq> Some (Inl NameError)
         \<and> tile_range (entry_globals k) ((fst ec)\<lparr>road := []\<rparr>) tr =
             (case corners_get k of
                Inl err \<Rightarrow> Inl err
              | Inr s \<Rightarrow> Inr (py_range (tile_from s) (tile_to s)))"
proof -
  from make_checkpoints_corner_num [OF assms(4)] assms(1) destroy_keeps [OF assms(3)]
  have c: "corner_num (fst ec) = Some n"
    by (simp add: reset_fields_keeps)
  with assms(2) have t: "above_ten (corner_num ((fst ec)\<lparr>road := []\<rparr>))"
    by (simp add: above_ten_def)
  then have 1: "tile_range library_globals ((fst ec)\<lparr>road := []\<rparr>) tr = Inl NameError"
    by (simp add: tile_range_def lookup_corner_num_def library_globals_def)
  have "CarRacing_reset library_globals fs e rnd (a # as) f = Some (Inl NameError)"
    using assms(3,4,5,6) 1
    by (simp add: CarRacing_reset_def CarRacing_create_track_def build_road_def Let_def)
  moreover from t have "tile_range (entry_globals k) ((fst ec)\<lparr>road := []\<rparr>) tr =
             (case corners_get k of
                Inl err \<Rightarrow> Inl err
              | Inr s \<Rightarrow> Inr (py_range (tile_from s) (tile_to s)))"
    by (simp add: tile_range_def lookup_corner_num_def entry_globals_def)
  ultimately show ?thesis using bound_name_reset [of k fs e rnd "a # as" f] by simp
qed

theorem library_reset_name_error_witness:
  "corner_num example_scenario = Some 85 \<and> (85 :: int) > 10
   \<and> CarRacing_reset library_globals no_files example_scenario (0, 0, 0) [example_attempt]
        still_frame = Some (Inl NameError)
   \<and> CarRacing_reset (entry_globals (Some 30)) no_files example_scenario (0, 0, 0)
        [example_attempt] still_frame \<noteq> Some (Inl NameError)
   \<and> tile_range (entry_globals (Some 30))
        ((fst (store_checkpoints (reset_fields example_scenario (0, 0, 0)) CHECKPOINTS
            (draw example_attempt)))\<lparr>road := []\<rparr>)
        [(0, 0, 0, 1), (0, 0, 0, 2), (0, 0, 0, 3), (0, 0, 0, 4), (0, 0, 0, 5)]
      = Inr (py_range 310 348)"
proof -
  have h: "corner_num example_scenario = Some 85" "(85 :: int) > 10"
    by (simp_all add: example_scenario_def CarRacing_init_def init_colors_def)
  from library_reset_name_error [OF h example_scenario_destroy example_scenario_checkpoints
      example_scenario_loop example_border_flags, of "[]" still_frame "Some 30"] h
  show ?thesis
    by (simp add: corners_get_def corners_def corners_table_def entry_def)
qed

subsection \<open>The stable index of a tile\<close>
















subsection \<open>The reward of a whole track\<close>

text \<open>For the scenarios 1 to 5 the table gives the range \<open>0\<close> to \<open>- 1\<close>. The tile loop does not
  use it (the identifier is not above 10) and creates a tile for every point, while
  \<^verbatim>\<open>self.track\<close> becomes \<^verbatim>\<open>track[0:-1]\<close>, one point shorter; a first visit is credited with
  \<^verbatim>\<open>1000.0 / len(self.env.track)\<close>.\<close>

lemma example_one_eq:
  "entry_env (Some 1) (0, 0, 0)
     = (entry_globals (Some 1),
        CarRacing_init True (95 / 100) False (Some 1) (Some sim_params_path_v1) (0, 0, 0))"
  by (simp add: entry_env_def entry_args_def corners_def corners_table_def entry_def)

lemma example_one_destroy: "destroy example_one = Inr example_one"
  by (simp add: destroy_def example_one_def example_one_eq CarRacing_init_def init_colors_def)

lemma scenario_one_create_track:
  "CarRacing_create_track (entry_globals (Some 1)) (one_file full_lines)
     (reset_fields example_one (0, 0, 0)) example_attempt
   = Inr (True, scenario_one_ready\<lparr>car := None, t_sim := 0\<rparr>)"
proof -
  let ?e = "reset_fields example_one (0, 0, 0)"
  have p: "sim_params_path ?e = Some sim_params_path_v1"
    by (simp add: reset_fields_def init_colors_def example_one_def example_one_eq
          CarRacing_init_def)
  from full_lines_load [of ?e] obtain cps where
    "load_checkpoints (one_file full_lines) ?e CHECKPOINTS sim_params_path_v1
       = Inr (?e\<lparr>start_alpha := - (pi / 12)\<rparr>, cps)"
    by (cases "load_checkpoints (one_file full_lines) ?e CHECKPOINTS sim_params_path_v1") auto
  with p have m: "make_checkpoints (one_file full_lines) ?e example_attempt
       = Inr (?e\<lparr>start_alpha := - (pi / 12)\<rparr>, cps)"
    by (simp add: make_checkpoints_def sim_params_path_v1_def)
  show ?thesis
    unfolding CarRacing_create_track_def m
    by (simp add: example_one_def example_one_eq
        CarRacing_init_def init_colors_def reset_fields_def example_attempt_def
        example_close_loop example_border_flags build_road_def tile_range_def
        above_ten_def py_range_def upto.simps create_tile_def py_index_def exposed_track_def
        truthy_def Let_def split_beta rgb_add_def road_vertices_def
        TRACK_WIDTH_def SCALE_def example_ready_def scenario_one_ready_def
        entry_globals_def lookup_corner_num_def corners_get_def corners_def corners_table_def
        entry_def py_slice_def py_bound_def)
qed

lemma scenario_one_reset:
  "CarRacing_reset (entry_globals (Some 1)) (one_file full_lines) example_one (0, 0, 0)
     [example_attempt] still_frame = Some (Inr scenario_one_ready)"
  by (simp add: CarRacing_reset_def example_one_destroy scenario_one_create_track new_car_def
        py_index_def corners_get_def corners_def corners_table_def entry_def CarRacing_step_def
        still_frame_def Let_def FPS_def example_ready_def scenario_one_ready_def)

text \<open>The accounts of an episode. A first visit adds \<open>1000 / len(self.track)\<close> to the
  reward and one to the count, a step with an action subtracts \<open>0.1\<close>, and nothing else
  touches either; the sum of the step rewards of steps in bounds telescopes to the reward.
  So an episode that ends in bounds by \<^verbatim>\<open>done\<close> has \<^verbatim>\<open>len(self.track)\<close> credited visits and
  the reward \<open>1000 - 0.1 * F\<close>, whatever the number of tiles is.\<close>

lemma contact_accounting:
  assumes "FrictionDetector_contact e c b = Inr e1"
  shows "track e1 = track e \<and> prev_reward e1 = prev_reward e \<and> new_lap e1 = new_lap e
         \<and> real (length (track e)) * reward e1 - 1000 * real_of_int (tile_visited_count e1)
           = real (length (track e)) * reward e - 1000 * real_of_int (tile_visited_count e)"
  using assms
  by (auto simp: FrictionDetector_contact_def credit_tile_def Let_def field_simps
           split: prod.splits userdata.splits if_splits)

lemma world_Step_accounting:
  assumes "world_Step e evs = Inr e1"
  shows "track e1 = track e \<and> prev_reward e1 = prev_reward e \<and> new_lap e1 = new_lap e
         \<and> real (length (track e)) * reward e1 - 1000 * real_of_int (tile_visited_count e1)
           = real (length (track e)) * reward e - 1000 * real_of_int (tile_visited_count e)"
  using assms
proof (induction evs arbitrary: e)
  case Nil
  then show ?case by simp
next
  case (Cons ev evs)
  then obtain e0 where d: "dispatch e ev = Inr e0" and w: "world_Step e0 evs = Inr e1"
    by (auto split: sum.splits)
  from d have "track e0 = track e \<and> prev_reward e0 = prev_reward e \<and> new_lap e0 = new_lap e
         \<and> real (length (track e)) * reward e0 - 1000 * real_of_int (tile_visited_count e0)
           = real (length (track e)) * reward e - 1000 * real_of_int (tile_visited_count e)"
    by (cases ev) (auto simp: BeginContact_def EndContact_def dest: contact_accounting)
  with Cons.IH [OF w] show ?case by simp
qed

lemma step_accounting:
  assumes "CarRacing_step e (Some a) f = Inr (e1, r, d)"
      and "\<not> (\<bar>fst (position f)\<bar> > PLAYFIELD \<or> \<bar>snd (position f)\<bar> > PLAYFIELD)"
  shows "track e1 = track e \<and> new_lap e1 = new_lap e
         \<and> real (length (track e)) * reward e1 - 1000 * real_of_int (tile_visited_count e1)
           = real (length (track e)) * reward e - 1000 * real_of_int (tile_visited_count e)
             - real (length (track e)) / 10
         \<and> prev_reward e1 = reward e1 \<and> r = reward e1 - prev_reward e
         \<and> d = (tile_visited_count e1 = int (length (track e1)) \<or> new_lap e1)"
proof -
  from assms(1) obtain c0 where c0: "car e = Some c0"
    by (auto simp: CarRacing_step_def split: option.splits)
  obtain s g b where a: "a = (s, g, b)" by (cases a)
  define c1 where "c1 = c0\<lparr>steer_cmd := - s, gas_cmd := g, brake_cmd := b\<rparr>"
  from assms(1) c0 a obtain e0 where w: "world_Step (e\<lparr>car := Some c1\<rparr>) (events f) = Inr e0"
    by (auto simp: CarRacing_step_def c1_def Let_def split: sum.splits)
  from world_Step_accounting [OF w]
  have k: "track e0 = track e" "prev_reward e0 = prev_reward e" "new_lap e0 = new_lap e"
    "real (length (track e)) * reward e0 - 1000 * real_of_int (tile_visited_count e0)
       = real (length (track e)) * reward e - 1000 * real_of_int (tile_visited_count e)"
    by simp_all
  from assms c0 a w have
    "e1 = e0\<lparr>car := Some (c1\<lparr>hull_position := position f, fuel_spent := 0\<rparr>),
            t_sim := t_sim e0 + 1 / FPS, reward := reward e0 - 1 / 10,
            prev_reward := reward e0 - 1 / 10\<rparr>
     \<and> r = reward e0 - 1 / 10 - prev_reward e0
     \<and> d = (tile_visited_count e0 = int (length (track e0)) \<or> new_lap e0)"
    by (auto simp: CarRacing_step_def score_step_def Let_def c1_def)
  with k show ?thesis by (auto simp: field_simps)
qed

lemma play_accounting:
  assumes "play e afs tot n = Inr (e1, tot1, n1, d)"
      and "list_all (\<lambda>af. \<not> (\<bar>fst (position (snd af))\<bar> > PLAYFIELD
                              \<or> \<bar>snd (position (snd af))\<bar> > PLAYFIELD)) afs"
  shows "track e1 = track e \<and> new_lap e1 = new_lap e \<and> n \<le> n1
         \<and> real (length (track e)) * reward e1 - 1000 * real_of_int (tile_visited_count e1)
           = real (length (track e)) * reward e - 1000 * real_of_int (tile_visited_count e)
             - real (length (track e)) * real (n1 - n) / 10
         \<and> tot1 - prev_reward e1 = tot - prev_reward e
         \<and> (afs \<noteq> [] \<longrightarrow> prev_reward e1 = reward e1 \<and> n < n1)
         \<and> (d \<longrightarrow> afs \<noteq> []
                 \<and> (tile_visited_count e1 = int (length (track e1)) \<or> new_lap e1))"
  using assms
proof (induction afs arbitrary: e tot n)
  case Nil
  then show ?case by simp
next
  case (Cons af afs)
  from Cons.prems(1) obtain e0 r d0 where
    st: "CarRacing_step e (Some (fst af)) (snd af) = Inr (e0, r, d0)"
    by (auto split: sum.splits)
  from Cons.prems(2) have b: "\<not> (\<bar>fst (position (snd af))\<bar> > PLAYFIELD
                              \<or> \<bar>snd (position (snd af))\<bar> > PLAYFIELD)"
    and bs: "list_all (\<lambda>af. \<not> (\<bar>fst (position (snd af))\<bar> > PLAYFIELD
                              \<or> \<bar>snd (position (snd af))\<bar> > PLAYFIELD)) afs"
    by simp_all
  note acc = step_accounting [OF st b]
  show ?case
  proof (cases d0)
    case True
    with Cons.prems(1) st have "e1 = e0" "tot1 = tot + r" "n1 = Suc n" "d"
      by simp_all
    with acc True show ?thesis by (auto simp: field_simps)
  next
    case False
    with Cons.prems(1) st have p: "play e0 afs (tot + r) (Suc n) = Inr (e1, tot1, n1, d)"
      by simp
    from Cons.IH [OF p bs] have ih:
      "track e1 = track e0" "new_lap e1 = new_lap e0" "Suc n \<le> n1"
      "real (length (track e0)) * reward e1 - 1000 * real_of_int (tile_visited_count e1)
           = real (length (track e0)) * reward e0 - 1000 * real_of_int (tile_visited_count e0)
             - real (length (track e0)) * real (n1 - Suc n) / 10"
      "tot1 - prev_reward e1 = tot + r - prev_reward e0"
      "afs \<noteq> [] \<longrightarrow> prev_reward e1 = reward e1"
      "d \<longrightarrow> tile_visited_count e1 = int (length (track e1)) \<or> new_lap e1"
      by auto
    have m: "real (n1 - n) = real (n1 - Suc n) + 1"
      using ih(3) by (simp add: of_nat_diff)
    have q: "prev_reward e1 = reward e1"
    proof (cases "afs = []")
      case True
      with p acc show ?thesis by simp
    next
      case False
      with ih(6) show ?thesis by simp
    qed
    from acc ih m q show ?thesis by (auto simp: field_simps)
  qed
qed

lemma for_each_invariant:
  "for_each body xs s = Inr s' \<Longrightarrow> P s
   \<Longrightarrow> (\<And>x s0 s1. body x s0 = Inr s1 \<Longrightarrow> P s0 \<Longrightarrow> P s1) \<Longrightarrow> P s'"
proof (induction xs arbitrary: s)
  case Nil
  then show ?case by simp
next
  case (Cons x xs)
  from Cons.prems(1) obtain s1 where b: "body x s = Inr s1" and r: "for_each body xs s1 = Inr s'"
    by (auto split: sum.splits)
  from Cons.prems(3) [OF b Cons.prems(2)] have "P s1" .
  from Cons.IH [OF r this Cons.prems(3)] show ?case by simp
qed

lemma create_tile_accounts:
  "create_tile tr border i e = Inr e1 \<Longrightarrow>
     reward e1 = reward e \<and> prev_reward e1 = prev_reward e
     \<and> tile_visited_count e1 = tile_visited_count e \<and> new_lap e1 = new_lap e"
  by (auto simp: create_tile_def Let_def split: sum.splits if_splits)

lemma make_checkpoints_accounts:
  "make_checkpoints fs e a = Inr ec \<Longrightarrow>
     reward (fst ec) = reward e \<and> prev_reward (fst ec) = prev_reward e
     \<and> tile_visited_count (fst ec) = tile_visited_count e \<and> new_lap (fst ec) = new_lap e"
  by (auto simp: make_checkpoints_def load_checkpoints_def store_checkpoints_def
           split: option.splits if_splits sum.splits prod.splits)

lemma build_road_accounts:
  assumes "build_road G e tr = Inr e1"
  shows "reward e1 = reward e \<and> prev_reward e1 = prev_reward e
     \<and> tile_visited_count e1 = tile_visited_count e \<and> new_lap e1 = new_lap e"
proof -
  from assms obtain border rng e0 tr1
    where f: "for_each (create_tile tr border) rng e = Inr e0" and e1: "e1 = e0\<lparr>track := tr1\<rparr>"
    by (auto simp: build_road_def split: sum.splits)
  have "reward e0 = reward e \<and> prev_reward e0 = prev_reward e
     \<and> tile_visited_count e0 = tile_visited_count e \<and> new_lap e0 = new_lap e"
    by (rule for_each_invariant [OF f, where P = "\<lambda>s. reward s = reward e
          \<and> prev_reward s = prev_reward e
          \<and> tile_visited_count s = tile_visited_count e \<and> new_lap s = new_lap e"])
       (auto dest: create_tile_accounts)
  with e1 show ?thesis by simp
qed

lemma create_track_accounts:
  assumes "CarRacing_create_track G fs e a = Inr (ok, e1)"
  shows "reward e1 = reward e \<and> prev_reward e1 = prev_reward e
     \<and> tile_visited_count e1 = tile_visited_count e \<and> new_lap e1 = new_lap e"
proof -
  from assms obtain ec where mk: "make_checkpoints fs e a = Inr ec"
    by (auto simp: CarRacing_create_track_def split: sum.splits)
  note m = make_checkpoints_accounts [OF mk]
  from assms mk have "e1 = (fst ec)\<lparr>road := []\<rparr>
      \<or> (\<exists>tr. build_road G ((fst ec)\<lparr>road := []\<rparr>) tr = Inr e1)"
    by (auto simp: CarRacing_create_track_def Let_def split: sum.splits option.splits)
  with m show ?thesis by (auto dest: build_road_accounts)
qed

lemma create_track_loop_accounts:
  "create_track_loop G fs e as = Some (Inr e1) \<Longrightarrow>
     reward e1 = reward e \<and> prev_reward e1 = prev_reward e
     \<and> tile_visited_count e1 = tile_visited_count e \<and> new_lap e1 = new_lap e"
proof (induction as arbitrary: e)
  case Nil
  then show ?case by simp
next
  case (Cons a as)
  then show ?case
    by (auto split: sum.splits if_splits dest: create_track_accounts)
qed

lemma reset_accounting:
  assumes "CarRacing_reset G fs e rnd as f = Some (Inr e0)"
  shows "prev_reward e0 = 0 \<and> \<not> new_lap e0 \<and> track e0 \<noteq> []
         \<and> real (length (track e0)) * reward e0 = 1000 * real_of_int (tile_visited_count e0)"
proof -
  from assms obtain d0 e4 e5 res where d: "destroy e = Inr d0"
      and l: "create_track_loop G fs (reset_fields d0 rnd) as = Some (Inr e4)"
      and c: "new_car e4 = Inr e5"
      and s: "CarRacing_step e5 None f = Inr res" and e0: "e0 = fst res"
    by (auto simp: CarRacing_reset_def split: sum.splits option.splits)
  have "reward (reset_fields d0 rnd) = 0 \<and> prev_reward (reset_fields d0 rnd) = 0
     \<and> tile_visited_count (reset_fields d0 rnd) = 0 \<and> \<not> new_lap (reset_fields d0 rnd)"
    by (simp add: reset_fields_def init_colors_def)
  with create_track_loop_accounts [OF l]
  have a4: "reward e4 = 0" "prev_reward e4 = 0" "tile_visited_count e4 = 0" "\<not> new_lap e4"
    by simp_all
  from c have t: "track e4 \<noteq> []"
    by (auto simp: new_car_def py_index_def split: sum.splits if_splits)
  from c a4 t have a5: "reward e5 = 0" "prev_reward e5 = 0" "tile_visited_count e5 = 0"
      "\<not> new_lap e5" "track e5 \<noteq> []"
    by (auto simp: new_car_def split: sum.splits prod.splits)
  from s obtain c0 e6 where w: "world_Step (e5\<lparr>car := Some c0\<rparr>) (events f) = Inr e6"
      and r: "fst res = e6\<lparr>car := Some (c0\<lparr>hull_position := position f\<rparr>),
                            t_sim := t_sim e6 + 1 / FPS\<rparr>"
    by (auto simp: CarRacing_step_def Let_def split: option.splits sum.splits)
  from world_Step_accounting [OF w] a5 r e0 show ?thesis by simp
qed

lemma episode_accounting:
  assumes "CarRacing_reset G fs e rnd as f = Some (Inr e0)"
      and "play e0 afs 0 0 = Inr (e1, tot, F, True)"
      and "list_all (\<lambda>af. \<not> (\<bar>fst (position (snd af))\<bar> > PLAYFIELD
                              \<or> \<bar>snd (position (snd af))\<bar> > PLAYFIELD)) afs"
  shows "tile_visited_count e1 = int (length (track e1))
         \<and> tot = 1000 - real F / 10 \<and> reward e1 = tot"
proof -
  note r = reset_accounting [OF assms(1)]
  note p = play_accounting [OF assms(2,3)]
  from p r have n: "tile_visited_count e1 = int (length (track e1))" by auto
  from p r have t: "tot = reward e1" by auto
  from p have k: "track e1 = track e0" by simp
  from p r n k have "real (length (track e0)) * reward e1 - 1000 * real (length (track e0))
           = - (real (length (track e0)) * real F / 10)"
    by auto
  then have "real (length (track e0)) * (reward e1 - 1000 + real F / 10) = 0"
    by (simp add: algebra_simps)
  moreover from r have "real (length (track e0)) \<noteq> 0" by simp
  ultimately have "reward e1 - 1000 + real F / 10 = 0"
    by (simp only: mult_eq_0_iff) simp
  then have "reward e1 = 1000 - real F / 10" by simp
  with n t show ?thesis by simp
qed

text \<open>Claim C7 says that an episode in which all \<open>K\<close> tiles are visited in \<open>F\<close> frames with
  an action, without leaving the playfield, accumulates \<open>1000 - 0.1 * F\<close>. Started with the
  argument 1, the entry point constructs an environment that \<^verbatim>\<open>reset\<close> gives five tiles and
  a track list of four points; three frames in bounds reach all five tiles, and both the
  reward of the environment and the sum of the step rewards are \<open>1249.7\<close>, not \<open>999.7\<close>; no
  step reports \<^verbatim>\<open>done\<close>.\<close>

theorem scenario_one_reward:
  "CarRacing_reset (fst (entry_env (Some 1) (0, 0, 0))) (one_file full_lines)
     (projr (snd (entry_env (Some 1) (0, 0, 0)))) (0, 0, 0) [example_attempt] still_frame
     = Some (Inr scenario_one_ready)
   \<and> length (road scenario_one_ready) = 5
   \<and> length (track scenario_one_ready) = 4
   \<and> \<not> isl (play scenario_one_ready pair_frames 0 0)
   \<and> list_all (\<lambda>b. road_visited (bodies (fst (projr (play scenario_one_ready pair_frames 0 0))) b))
        (road scenario_one_ready)
   \<and> snd (projr (play scenario_one_ready pair_frames 0 0)) = (12497 / 10, 3, False)
   \<and> reward (fst (projr (play scenario_one_ready pair_frames 0 0))) = 12497 / 10
   \<and> (12497 / 10 :: real) \<noteq> 1000 - (1 / 10) * 3"
proof -
  have r: "CarRacing_reset (fst (entry_env (Some 1) (0, 0, 0))) (one_file full_lines)
     (projr (snd (entry_env (Some 1) (0, 0, 0)))) (0, 0, 0) [example_attempt] still_frame
     = Some (Inr scenario_one_ready)"
    using scenario_one_reset by (simp add: example_one_def example_one_eq)
  have p: "\<not> isl (play scenario_one_ready pair_frames 0 0)
   \<and> list_all (\<lambda>b. road_visited (bodies (fst (projr (play scenario_one_ready pair_frames 0 0))) b))
        (road scenario_one_ready)
   \<and> snd (projr (play scenario_one_ready pair_frames 0 0)) = (12497 / 10, 3, False)
   \<and> reward (fst (projr (play scenario_one_ready pair_frames 0 0))) = 12497 / 10"
    by (simp add: pair_frames_def CarRacing_step_def scenario_one_ready_def example_ready_def
        coast_def touch_def touch_two_def Let_def BeginContact_def FrictionDetector_contact_def
        contact_pair_def credit_tile_def score_step_def PLAYFIELD_def SCALE_def FPS_def)
  have l: "length (road scenario_one_ready) = 5" "length (track scenario_one_ready) = 4"
    by (simp_all add: scenario_one_ready_def example_ready_def)
  from r p l show ?thesis by simp
qed

end
